theory Spec2Isabelle
  imports Main "HOL-Library.AList"
begin

section \<open>Python values\<close>

text \<open>
  A Python \<open>str\<close> is a sequence of Unicode code points, so it is modelled as a list of
  natural numbers (the documents, names and roles of this program are mostly Cyrillic,
  which an 8-bit \<open>char\<close> cannot hold). \<open>u\<close> turns an ASCII literal into such a string.
\<close>

type_synonym ustring = "nat list"

definition u :: "string \<Rightarrow> ustring" where
  "u s = map of_char s"

text \<open>
  The values \<open>json.loads\<close> can return. A \<open>dict\<close> is an association list in insertion
  order; \<open>d[k] = v\<close> is \<open>AList.update k v d\<close> (an existing key keeps its place, a new one
  goes last, as in Python). A \<open>float\<close> is kept as the literal it was read from, since
  binary floating point is not modelled.
\<close>

datatype json =
    JNull
  | JBool bool
  | JInt int
  | JFloat ustring
  | JString ustring
  | JArray "json list"
  | JObject "(ustring \<times> json) list"

type_synonym pydict = "(ustring \<times> json) list"

text \<open>
  Every exception the two scripts can raise inside \<open>generate_task_json\<close>. The Russian
  message texts are left out; the values interpolated into them are kept.
\<close>

datatype py_error =
    ApiKeyMissing
  | RequestFailed
  | HTTPError nat
  | BodyNotJSON
  | KeyError ustring
  | IndexError
  | TypeError
  | AttributeError
  | JSONError ustring ustring
  | LoadsError
  | NotAnObject ustring
  | MissingFields ustring ustring

text \<open>\<open>str.isspace\<close> of one code point, and \<open>str.strip()\<close> with no argument.\<close>

definition py_isspace :: "nat \<Rightarrow> bool" where
  "py_isspace c \<longleftrightarrow>
     (9 \<le> c \<and> c \<le> 13) \<or> (28 \<le> c \<and> c \<le> 32) \<or> c = 133 \<or> c = 160 \<or> c = 5760
     \<or> (8192 \<le> c \<and> c \<le> 8202) \<or> c = 8232 \<or> c = 8233 \<or> c = 8239 \<or> c = 8287
     \<or> c = 12288"

definition py_strip :: "ustring \<Rightarrow> ustring" where
  "py_strip s = rev (dropWhile py_isspace (rev (dropWhile py_isspace s)))"

text \<open>\<open>s.replace(old, new)\<close> for one-character \<open>old\<close> and \<open>new\<close>.\<close>

definition py_replace :: "nat \<Rightarrow> nat \<Rightarrow> ustring \<Rightarrow> ustring" where
  "py_replace old new s = map (\<lambda>c. if c = old then new else c) s"

text \<open>\<open>d.get(k)\<close>: the value, or \<open>None\<close> for a missing key.\<close>

definition py_get :: "pydict \<Rightarrow> ustring \<Rightarrow> json" where
  "py_get d k = (case map_of d k of None \<Rightarrow> JNull | Some v \<Rightarrow> v)"

text \<open>\<open>d[k]\<close> and \<open>x[0]\<close> on a value that came out of \<open>json.loads\<close>.\<close>

fun py_getitem :: "json \<Rightarrow> ustring \<Rightarrow> py_error + json" where
  "py_getitem (JObject d) k =
     (case map_of d k of None \<Rightarrow> Inl (KeyError k) | Some v \<Rightarrow> Inr v)"
| "py_getitem _ k = Inl TypeError"

fun py_getitem0 :: "json \<Rightarrow> py_error + json" where
  "py_getitem0 (JArray []) = Inl IndexError"
| "py_getitem0 (JArray (x # xs)) = Inr x"
| "py_getitem0 (JString []) = Inl IndexError"
| "py_getitem0 (JString (c # cs)) = Inr (JString [c])"
| "py_getitem0 (JObject d) = Inl (KeyError (u ''0''))"
| "py_getitem0 _ = Inl TypeError"

fun py_strip_method :: "json \<Rightarrow> py_error + ustring" where
  "py_strip_method (JString s) = Inr (py_strip s)"
| "py_strip_method _ = Inl AttributeError"

section \<open>test7.py: normalisation, extraction, cache key\<close>

definition STATUS_CHOICES :: "ustring list" where
  "STATUS_CHOICES = [u ''new'', u ''in_progress'', u ''completed'', u ''cancelled'']"

definition PRIORITY_CHOICES :: "ustring list" where
  "PRIORITY_CHOICES = [u ''low'', u ''medium'', u ''high'', u ''critical'']"

text \<open>\<open>s.replace('\\n', ' ').replace('\\r', ' ').strip()\<close>, as line 34 applies it.\<close>

abbreviation clean_text :: "ustring \<Rightarrow> ustring" where
  "clean_text s \<equiv> py_strip (py_replace 13 32 (py_replace 10 32 s))"

text \<open>The body of the loop \<open>for key in ["title", "description"]\<close> (lines 32 to 34).\<close>

definition strip_newlines :: "ustring \<Rightarrow> pydict \<Rightarrow> pydict" where
  "strip_newlines key d =
     (case py_get d key of
        JString s \<Rightarrow> AList.update key (JString (clean_text s)) d
      | _ \<Rightarrow> d)"

definition normalize_json_result :: "json \<Rightarrow> ustring \<Rightarrow> ustring \<Rightarrow> py_error + pydict" where
  "normalize_json_result data student_name role_ru =
     (case data of
        JObject d \<Rightarrow>
          (let d1 = AList.update (u ''role'') (JString role_ru) d;
               d2 = AList.update (u ''executor'') (JString student_name) d1;
               d3 = AList.update (u ''author'') (JString (u ''AI'')) d2;
               d4 = (if py_get d3 (u ''status'') \<notin> set (map JString STATUS_CHOICES)
                     then AList.update (u ''status'') (JString (u ''new'')) d3 else d3);
               d5 = (if py_get d4 (u ''priority'') \<notin> set (map JString PRIORITY_CHOICES)
                     then AList.update (u ''priority'') (JString (u ''medium'')) d4 else d4)
           in Inr (fold strip_newlines [u ''title'', u ''description''] d5))
      | _ \<Rightarrow> Inl (NotAnObject student_name))"

text \<open>
  \<open>re.search(r'({.*})', text, re.DOTALL)\<close>: the leftmost position where the pattern
  matches is the first \<open>{\<close> that has a \<open>}\<close> somewhere after it, and the greedy \<open>.*\<close>
  (which, with \<open>DOTALL\<close>, also crosses line breaks) runs to the last \<open>}\<close> of the text.
  \<open>{\<close> is code point 123 and \<open>}\<close> is 125.
\<close>

definition upto_last_rbrace :: "ustring \<Rightarrow> ustring" where
  "upto_last_rbrace s = rev (dropWhile (\<lambda>c. c \<noteq> 125) (rev s))"

fun re_search_braces :: "ustring \<Rightarrow> ustring option" where
  "re_search_braces [] = None"
| "re_search_braces (c # cs) =
     (if c = 123 \<and> 125 \<in> set cs then Some (c # upto_last_rbrace cs)
      else re_search_braces cs)"

definition extract_json_from_text :: "ustring \<Rightarrow> ustring" where
  "extract_json_from_text text =
     (case re_search_braces text of Some m \<Rightarrow> m | None \<Rightarrow> text)"

section \<open>The library and the remote service\<close>

text \<open>
  What the scripts take from outside the repository is a parameter of the model, gathered
  in one record: the digest \<open>hashlib.md5(s.encode("utf-8")).hexdigest()\<close>, the parser
  \<open>json.loads\<close>, the two facts about a float that the title check needs (its equality
  class and its \<open>repr\<close>), and the remote service. \<open>post E n req\<close> is the answer to the
  request \<open>req\<close> when \<open>n\<close> requests were issued before it: \<open>None\<close> when \<open>requests.post\<close>
  raises (no connection, timeout), otherwise the status code and the decoded body
  (\<open>None\<close> when \<open>response.json()\<close> raises). The digest is taken as total: the texts
  it is applied to come from decoded files and a selection box, so they hold no lone
  surrogate and encoding them never fails.
\<close>

record request =
  req_api_key :: ustring
  req_model :: ustring
  req_document_text :: ustring
  req_student_name :: ustring
  req_role_ru :: ustring

datatype response = Response nat "json option"

datatype load_error = JSONDecodeError | OtherLoadError

datatype fclass = FNaN | FIntegral int | FOther ustring

record env =
  md5_hex :: "ustring \<Rightarrow> ustring"
  json_loads :: "ustring \<Rightarrow> load_error + json"
  float_class :: "ustring \<Rightarrow> fclass"
  float_repr :: "ustring \<Rightarrow> ustring"
  post :: "nat \<Rightarrow> request \<Rightarrow> response option"

definition bind_err :: "'e + 'a \<Rightarrow> ('a \<Rightarrow> 'e + 'b) \<Rightarrow> 'e + 'b" where
  "bind_err r f = (case r of Inl e \<Rightarrow> Inl e | Inr x \<Rightarrow> f x)"

text \<open>
  \<open>requests.post(...)\<close>, \<open>response.raise_for_status()\<close> and
  \<open>response.json()["choices"][0]["message"]["content"].strip()\<close>, the same three lines
  in both scripts.
\<close>

definition fetch_content :: "env \<Rightarrow> nat \<Rightarrow> request \<Rightarrow> py_error + ustring" where
  "fetch_content E n req =
     (case post E n req of
        None \<Rightarrow> Inl RequestFailed
      | Some (Response code body) \<Rightarrow>
          if 400 \<le> code \<and> code < 600 then Inl (HTTPError code)
          else (case body of
                  None \<Rightarrow> Inl BodyNotJSON
                | Some j \<Rightarrow>
                    bind_err (py_getitem j (u ''choices'')) (\<lambda>choices.
                    bind_err (py_getitem0 choices) (\<lambda>choice.
                    bind_err (py_getitem choice (u ''message'')) (\<lambda>message.
                    bind_err (py_getitem message (u ''content'')) py_strip_method)))))"

section \<open>test7.py: the generator with cache and title check\<close>

definition cache_key :: "env \<Rightarrow> ustring \<Rightarrow> ustring \<Rightarrow> ustring \<Rightarrow> ustring \<Rightarrow> ustring" where
  "cache_key E document_text student_name role_ru model =
     md5_hex E (take 1000 document_text @ u ''||'' @ student_name @ u ''||'' @ role_ru
                @ u ''||'' @ model)"

text \<open>
  \<open>used_titles\<close> is a set of tuples \<open>(title, description)\<close>, and the script only ever
  tests membership and adds. A tuple can be hashed when both parts can: a \<open>list\<close> or a
  \<open>dict\<close> raises \<open>TypeError\<close>. Two hashable values are found equal by the set when
  they have the same key below (\<open>True == 1 == 1.0\<close>). \<open>json.loads\<close> gives the one
  object \<open>json.decoder.NaN\<close> for every \<open>NaN\<close> it reads, and the set compares by
  identity before it compares by value, so a NaN is found again: it has a key of its own.
\<close>

datatype scalar = SNone | SBool bool | SInt int | SFloat ustring | SStr ustring

fun as_scalar :: "json \<Rightarrow> scalar option" where
  "as_scalar JNull = Some SNone"
| "as_scalar (JBool b) = Some (SBool b)"
| "as_scalar (JInt i) = Some (SInt i)"
| "as_scalar (JFloat x) = Some (SFloat x)"
| "as_scalar (JString s) = Some (SStr s)"
| "as_scalar (JArray xs) = None"
| "as_scalar (JObject d) = None"

datatype pykey = KNone | KNum int | KFloat ustring | KNaN | KStr ustring

fun py_hash :: "env \<Rightarrow> scalar \<Rightarrow> pykey" where
  "py_hash E SNone = KNone"
| "py_hash E (SBool b) = KNum (if b then 1 else 0)"
| "py_hash E (SInt i) = KNum i"
| "py_hash E (SFloat x) =
     (case float_class E x of
        FNaN \<Rightarrow> KNaN
      | FIntegral i \<Rightarrow> KNum i
      | FOther c \<Rightarrow> KFloat c)"
| "py_hash E (SStr s) = KStr s"

text \<open>\<open>str(n)\<close> for an integer, and the text an f-string puts for a hashable value.\<close>

fun str_nat :: "nat \<Rightarrow> ustring" where
  "str_nat n = (if n < 10 then [48 + n] else str_nat (n div 10) @ [48 + n mod 10])"

definition str_int :: "int \<Rightarrow> ustring" where
  "str_int i = (if i < 0 then 45 # str_nat (nat (- i)) else str_nat (nat i))"

fun py_format :: "env \<Rightarrow> scalar \<Rightarrow> ustring" where
  "py_format E SNone = u ''None''"
| "py_format E (SBool b) = (if b then u ''True'' else u ''False'')"
| "py_format E (SInt i) = str_int i"
| "py_format E (SFloat x) = float_repr E x"
| "py_format E (SStr s) = s"

type_synonym titles = "(pykey \<times> pykey) set"

definition in_titles :: "env \<Rightarrow> scalar \<Rightarrow> scalar \<Rightarrow> titles \<Rightarrow> bool" where
  "in_titles E t d ut \<longleftrightarrow> (py_hash E t, py_hash E d) \<in> ut"

definition add_title :: "env \<Rightarrow> scalar \<Rightarrow> scalar \<Rightarrow> titles \<Rightarrow> titles" where
  "add_title E t d ut = insert (py_hash E t, py_hash E d) ut"

text \<open>
  Lines 107 to 111, run when \<open>used_titles is not None\<close>: \<open>data["title"]\<close> and
  \<open>data["description"]\<close> raise \<open>KeyError\<close> when absent (the title is read first), the
  membership test raises \<open>TypeError\<close> on an unhashable part, a pair already seen gets
  the role appended to its title in square brackets, and the pair is added.
\<close>

definition unique_title :: "env \<Rightarrow> pydict \<Rightarrow> ustring \<Rightarrow> titles \<Rightarrow> py_error + pydict \<times> titles" where
  "unique_title E data role_ru ut =
     bind_err (py_getitem (JObject data) (u ''title'')) (\<lambda>title.
     bind_err (py_getitem (JObject data) (u ''description'')) (\<lambda>description.
       (case (as_scalar title, as_scalar description) of
          (Some t, Some d) \<Rightarrow>
            if in_titles E t d ut
            then (let new_title = py_format E t @ u '' ['' @ role_ru @ u '']''
                  in Inr (AList.update (u ''title'') (JString new_title) data,
                          add_title E (SStr new_title) d ut))
            else Inr (data, add_title E t d ut)
        | _ \<Rightarrow> Inl TypeError)))"

text \<open>
  The process-wide state: the dictionary \<open>CACHE\<close> and, to count remote calls, the list
  of the requests sent so far.
\<close>

record state =
  CACHE :: "ustring \<rightharpoonup> pydict"
  sent :: "request list"

definition generate_task_json7 ::
  "env \<Rightarrow> ustring \<Rightarrow> ustring \<Rightarrow> ustring \<Rightarrow> ustring \<Rightarrow> ustring \<Rightarrow> titles option \<Rightarrow> state
     \<Rightarrow> (py_error + pydict) \<times> titles option \<times> state" where
  "generate_task_json7 E document_text student_name role_ru api_key model used_titles s =
     (let key = cache_key E document_text student_name role_ru model in
      case CACHE s key of
        Some cached \<Rightarrow> (Inr cached, used_titles, s)
      | None \<Rightarrow>
          (let req = \<lparr>req_api_key = api_key, req_model = model,
                      req_document_text = document_text, req_student_name = student_name,
                      req_role_ru = role_ru\<rparr>;
               s1 = s\<lparr>sent := sent s @ [req]\<rparr>
           in case fetch_content E (length (sent s)) req of
                Inl e \<Rightarrow> (Inl e, used_titles, s1)
              | Inr raw_text \<Rightarrow>
                  (case json_loads E (extract_json_from_text raw_text) of
                     Inl e \<Rightarrow> (Inl (JSONError student_name raw_text), used_titles, s1)
                   | Inr parsed \<Rightarrow>
                       (case normalize_json_result parsed student_name role_ru of
                          Inl e \<Rightarrow> (Inl e, used_titles, s1)
                        | Inr data \<Rightarrow>
                            (case used_titles of
                               None \<Rightarrow> (Inr data, None, s1\<lparr>CACHE := (CACHE s1)(key \<mapsto> data)\<rparr>)
                             | Some ut \<Rightarrow>
                                 (case unique_title E data role_ru ut of
                                    Inl e \<Rightarrow> (Inl e, Some ut, s1)
                                  | Inr (data', ut') \<Rightarrow>
                                      (Inr data', Some ut',
                                       s1\<lparr>CACHE := (CACHE s1)(key \<mapsto> data')\<rparr>)))))))"

text \<open>
  The loop of the button handler (lines 193 to 208). A roster row is the text of its
  \<open>student_name\<close> and \<open>role_ru\<close> cells (what \<open>str(...)\<close> gives); an entry of \<open>errors\<close> keeps
  the three values its message is built from.
\<close>

type_synonym row = "ustring \<times> ustring"

type_synonym failure = "ustring \<times> ustring \<times> py_error"

fun batch_loop7 ::
  "env \<Rightarrow> ustring \<Rightarrow> ustring \<Rightarrow> ustring \<Rightarrow> row list
     \<Rightarrow> pydict list \<times> failure list \<times> titles option \<times> state
     \<Rightarrow> pydict list \<times> failure list \<times> titles option \<times> state" where
  "batch_loop7 E document_text api_key model [] acc = acc"
| "batch_loop7 E document_text api_key model ((name_cell, role_cell) # rows)
       (results, errors, used_titles, s) =
     (let student_name = py_strip name_cell; role_ru = py_strip role_cell
      in case generate_task_json7 E document_text student_name role_ru api_key model used_titles s of
           (Inr task_json, used_titles', s') \<Rightarrow>
             batch_loop7 E document_text api_key model rows
               (results @ [task_json], errors, used_titles', s')
         | (Inl e, used_titles', s') \<Rightarrow>
             batch_loop7 E document_text api_key model rows
               (results, errors @ [(student_name, role_ru, e)], used_titles', s'))"

definition run_batch7 ::
  "env \<Rightarrow> ustring \<Rightarrow> ustring \<Rightarrow> ustring \<Rightarrow> row list \<Rightarrow> state
     \<Rightarrow> pydict list \<times> failure list \<times> titles option \<times> state" where
  "run_batch7 E document_text api_key model rows s =
     batch_loop7 E document_text api_key model rows ([], [], Some {}, s)"

section \<open>test5.py: the generator without cache, and its loop\<close>

definition required_fields :: "ustring list" where
  "required_fields =
     [u ''title'', u ''description'', u ''status'', u ''role'', u ''executor'', u ''author'']"

text \<open>
  The script has no state of its own; the list of requests sent is threaded through to
  index the remote answers. \<open>data.keys()\<close> raises \<open>AttributeError\<close> when the parsed
  answer is not a \<open>dict\<close>, and \<open>except json.JSONDecodeError\<close> lets any other exception of
  \<open>json.loads\<close> through.
\<close>

definition generate_task_json5 ::
  "env \<Rightarrow> ustring \<Rightarrow> ustring \<Rightarrow> ustring \<Rightarrow> ustring \<Rightarrow> ustring \<Rightarrow> request list
     \<Rightarrow> (py_error + pydict) \<times> request list" where
  "generate_task_json5 E document_text student_name role_ru api_key model reqs =
     (if api_key = [] then (Inl ApiKeyMissing, reqs)
      else
        (let req = \<lparr>req_api_key = api_key, req_model = model,
                    req_document_text = document_text, req_student_name = student_name,
                    req_role_ru = role_ru\<rparr>;
             reqs1 = reqs @ [req]
         in case fetch_content E (length reqs) req of
              Inl e \<Rightarrow> (Inl e, reqs1)
            | Inr raw_text \<Rightarrow>
                (case json_loads E raw_text of
                   Inl JSONDecodeError \<Rightarrow> (Inl (JSONError student_name raw_text), reqs1)
                 | Inl OtherLoadError \<Rightarrow> (Inl LoadsError, reqs1)
                 | Inr (JObject data) \<Rightarrow>
                     if set required_fields \<subseteq> fst ` set data then (Inr data, reqs1)
                     else (Inl (MissingFields student_name raw_text), reqs1)
                 | Inr _ \<Rightarrow> (Inl AttributeError, reqs1))))"

fun batch_loop5 ::
  "env \<Rightarrow> ustring \<Rightarrow> ustring \<Rightarrow> ustring \<Rightarrow> row list
     \<Rightarrow> pydict list \<times> failure list \<times> request list
     \<Rightarrow> pydict list \<times> failure list \<times> request list" where
  "batch_loop5 E document_text api_key model [] acc = acc"
| "batch_loop5 E document_text api_key model ((name_cell, role_cell) # rows)
       (results, errors, reqs) =
     (let student_name = py_strip name_cell; role_ru = py_strip role_cell
      in case generate_task_json5 E document_text student_name role_ru api_key model reqs of
           (Inr task_json, reqs') \<Rightarrow>
             batch_loop5 E document_text api_key model rows
               (results @ [task_json], errors, reqs')
         | (Inl e, reqs') \<Rightarrow>
             batch_loop5 E document_text api_key model rows
               (results, errors @ [(student_name, role_ru, e)], reqs'))"

definition run_batch5 ::
  "env \<Rightarrow> ustring \<Rightarrow> ustring \<Rightarrow> ustring \<Rightarrow> row list \<Rightarrow> request list
     \<Rightarrow> pydict list \<times> failure list \<times> request list" where
  "run_batch5 E document_text api_key model rows reqs =
     batch_loop5 E document_text api_key model rows ([], [], reqs)"

section \<open>A model of json.loads\<close>

text \<open>
  The decoder of Python's standard library, written out from its grammar so that the
  generators can be run on concrete answers. The generators themselves take the parser
  from the environment, and only the statements about a concrete answer use this one.
  Not modelled: the interpreter's recursion limit and its limit on the digits of an
  integer literal.
\<close>

text \<open>Whitespace between tokens: space, tab, line feed, carriage return.\<close>

definition json_ws :: "nat \<Rightarrow> bool" where
  "json_ws c \<longleftrightarrow> c = 32 \<or> c = 9 \<or> c = 10 \<or> c = 13"

definition skip_ws :: "ustring \<Rightarrow> ustring" where
  "skip_ws s = dropWhile json_ws s"

definition is_digit :: "nat \<Rightarrow> bool" where
  "is_digit c \<longleftrightarrow> 48 \<le> c \<and> c \<le> 57"

text \<open>
  A string body, read from just after the opening quote to the closing one: the escapes
  of the decoder (a unicode escape takes four hexadecimal digits, and a high surrogate
  followed by an escaped low surrogate is one code point), and no raw control character.
\<close>

definition hex_val :: "nat \<Rightarrow> nat option" where
  "hex_val c =
     (if 48 \<le> c \<and> c \<le> 57 then Some (c - 48)
      else if 65 \<le> c \<and> c \<le> 70 then Some (c - 55)
      else if 97 \<le> c \<and> c \<le> 102 then Some (c - 87)
      else None)"

fun hex4 :: "ustring \<Rightarrow> nat option" where
  "hex4 (a # b # c # d # rest) =
     (case (hex_val a, hex_val b, hex_val c, hex_val d) of
        (Some x, Some y, Some z, Some w) \<Rightarrow> Some (((x * 16 + y) * 16 + z) * 16 + w)
      | _ \<Rightarrow> None)"
| "hex4 _ = None"

definition unescape :: "nat \<Rightarrow> nat option" where
  "unescape e =
     (if e = 34 then Some 34
      else if e = 92 then Some 92
      else if e = 47 then Some 47
      else if e = 98 then Some 8
      else if e = 102 then Some 12
      else if e = 110 then Some 10
      else if e = 114 then Some 13
      else if e = 116 then Some 9
      else None)"

definition cons_chunk :: "nat \<Rightarrow> (ustring \<times> ustring) option \<Rightarrow> (ustring \<times> ustring) option" where
  "cons_chunk c r = (case r of None \<Rightarrow> None | Some (s, rest) \<Rightarrow> Some (c # s, rest))"

function scanstring :: "ustring \<Rightarrow> (ustring \<times> ustring) option" where
  "scanstring [] = None"
| "scanstring (c # cs) =
     (if c = 34 then Some ([], cs)
      else if c = 92 then
        (case cs of
           [] \<Rightarrow> None
         | e # rest \<Rightarrow>
             if e = 117 then
               (case hex4 rest of
                  None \<Rightarrow> None
                | Some uni \<Rightarrow>
                    if 55296 \<le> uni \<and> uni \<le> 56319 \<and> take 2 (drop 4 rest) = [92, 117] then
                      (case hex4 (drop 6 rest) of
                         None \<Rightarrow> None
                       | Some uni2 \<Rightarrow>
                           if 56320 \<le> uni2 \<and> uni2 \<le> 57343
                           then cons_chunk (65536 + (uni - 55296) * 1024 + (uni2 - 56320))
                                  (scanstring (drop 10 rest))
                           else cons_chunk uni (scanstring (drop 4 rest)))
                    else cons_chunk uni (scanstring (drop 4 rest)))
             else (case unescape e of
                     None \<Rightarrow> None
                   | Some ch \<Rightarrow> cons_chunk ch (scanstring rest)))
      else if c < 32 then None
      else cons_chunk c (scanstring cs))"
  by pat_completeness auto
termination
  by (relation "measure length") auto

text \<open>
  The number pattern of the decoder: an optional minus, \<open>0\<close> or a digit sequence without
  leading zero, then a fraction and an exponent when they are complete. With neither the
  value is an \<open>int\<close>, otherwise a \<open>float\<close>.
\<close>

definition nat_of_digits :: "ustring \<Rightarrow> nat" where
  "nat_of_digits ds = foldl (\<lambda>a d. 10 * a + (d - 48)) 0 ds"

definition number_int :: "ustring \<Rightarrow> (ustring \<times> ustring) option" where
  "number_int s =
     (case s of
        [] \<Rightarrow> None
      | d # r \<Rightarrow>
          if d = 48 then Some ([d], r)
          else if is_digit d then Some (d # takeWhile is_digit r, dropWhile is_digit r)
          else None)"

definition number_frac :: "ustring \<Rightarrow> ustring \<times> ustring" where
  "number_frac r =
     (case r of
        p # q # _ \<Rightarrow>
          if p = 46 \<and> is_digit q
          then (p # takeWhile is_digit (tl r), dropWhile is_digit (tl r))
          else ([], r)
      | _ \<Rightarrow> ([], r))"

definition number_exp :: "ustring \<Rightarrow> ustring \<times> ustring" where
  "number_exp r =
     (case r of
        [] \<Rightarrow> ([], r)
      | e # t \<Rightarrow>
          (let sgn = (case t of c # _ \<Rightarrow> if c = 43 \<or> c = 45 then [c] else [] | [] \<Rightarrow> []);
               ds = drop (length sgn) t
           in if (e = 101 \<or> e = 69) \<and> (case ds of q # _ \<Rightarrow> is_digit q | [] \<Rightarrow> False)
              then (e # sgn @ takeWhile is_digit ds, dropWhile is_digit ds)
              else ([], r)))"

definition match_number :: "ustring \<Rightarrow> (json \<times> ustring) option" where
  "match_number s =
     (let neg = (case s of c # _ \<Rightarrow> c = 45 | [] \<Rightarrow> False)
      in case number_int (if neg then tl s else s) of
           None \<Rightarrow> None
         | Some (ipart, r1) \<Rightarrow>
             (case number_frac r1 of
                (frac, r2) \<Rightarrow>
                  (case number_exp r2 of
                     (ex, r3) \<Rightarrow>
                       if frac = [] \<and> ex = []
                       then Some (JInt ((if neg then - 1 else 1) * int (nat_of_digits ipart)), r3)
                       else Some (JFloat ((if neg then [45] else []) @ ipart @ frac @ ex), r3))))"

text \<open>
  One value, the members of an object after the opening quote of a key, and the elements
  of an array. The first argument bounds the number of nested calls; \<open>py_json_loads\<close>
  starts with more than twice the length of the text, which is never used up (see
  \<open>py_json_loads_fuel\<close>). A later duplicate of a key replaces the value
  and keeps the place of the first, as building a \<open>dict\<close> from the pairs does.
\<close>

datatype 'a scan = OutOfFuel | Stop | Scanned 'a ustring

definition make_dict :: "(ustring \<times> json) list \<Rightarrow> pydict" where
  "make_dict pairs = fold (\<lambda>(k, v). AList.update k v) pairs []"

fun scan_once :: "nat \<Rightarrow> ustring \<Rightarrow> json scan"
  and scan_members :: "nat \<Rightarrow> (ustring \<times> json) list \<Rightarrow> ustring \<Rightarrow> json scan"
  and scan_elements :: "nat \<Rightarrow> json list \<Rightarrow> ustring \<Rightarrow> json scan" where
  "scan_once 0 s = OutOfFuel"
| "scan_once (Suc n) [] = Stop"
| "scan_once (Suc n) (c # cs) =
     (if c = 34 then (case scanstring cs of None \<Rightarrow> Stop | Some (str, rest) \<Rightarrow> Scanned (JString str) rest)
      else if c = 123 then
        (case skip_ws cs of
           [] \<Rightarrow> Stop
         | d # rest \<Rightarrow>
             if d = 125 then Scanned (JObject []) rest
             else if d = 34 then scan_members n [] rest
             else Stop)
      else if c = 91 then
        (case skip_ws cs of
           [] \<Rightarrow> Stop
         | d # rest \<Rightarrow>
             if d = 93 then Scanned (JArray []) rest
             else scan_elements n [] (d # rest))
      else if take 4 (c # cs) = u ''null'' then Scanned JNull (drop 3 cs)
      else if take 4 (c # cs) = u ''true'' then Scanned (JBool True) (drop 3 cs)
      else if take 5 (c # cs) = u ''false'' then Scanned (JBool False) (drop 4 cs)
      else (case match_number (c # cs) of
              Some (v, rest) \<Rightarrow> Scanned v rest
            | None \<Rightarrow>
                if take 3 (c # cs) = u ''NaN'' then Scanned (JFloat (u ''NaN'')) (drop 2 cs)
                else if take 8 (c # cs) = u ''Infinity'' then Scanned (JFloat (u ''Infinity'')) (drop 7 cs)
                else if take 9 (c # cs) = u ''-Infinity'' then Scanned (JFloat (u ''-Infinity'')) (drop 8 cs)
                else Stop))"
| "scan_members 0 pairs s = OutOfFuel"
| "scan_members (Suc n) pairs s =
     (case scanstring s of
        None \<Rightarrow> Stop
      | Some (key, r1) \<Rightarrow>
          (case skip_ws r1 of
             [] \<Rightarrow> Stop
           | colon # r2 \<Rightarrow>
               if colon \<noteq> 58 then Stop
               else (case scan_once n (skip_ws r2) of
                       OutOfFuel \<Rightarrow> OutOfFuel
                     | Stop \<Rightarrow> Stop
                     | Scanned v r3 \<Rightarrow>
                         (case skip_ws r3 of
                            [] \<Rightarrow> Stop
                          | d # r4 \<Rightarrow>
                              if d = 125 then Scanned (JObject (make_dict (pairs @ [(key, v)]))) r4
                              else if d = 44 then
                                (case skip_ws r4 of
                                   [] \<Rightarrow> Stop
                                 | q # r5 \<Rightarrow> if q = 34 then scan_members n (pairs @ [(key, v)]) r5 else Stop)
                              else Stop))))"
| "scan_elements 0 vals s = OutOfFuel"
| "scan_elements (Suc n) vals s =
     (case scan_once n s of
        OutOfFuel \<Rightarrow> OutOfFuel
      | Stop \<Rightarrow> Stop
      | Scanned v r \<Rightarrow>
          (case skip_ws r of
             [] \<Rightarrow> Stop
           | d # r1 \<Rightarrow>
               if d = 93 then Scanned (JArray (vals @ [v])) r1
               else if d = 44 then scan_elements n (vals @ [v]) (skip_ws r1)
               else Stop))"

definition py_json_loads :: "ustring \<Rightarrow> load_error + json" where
  "py_json_loads s =
     (if take 1 s = [65279] then Inl JSONDecodeError
      else case scan_once (Suc (length s + length s)) (skip_ws s) of
             OutOfFuel \<Rightarrow> Inl OtherLoadError
           | Stop \<Rightarrow> Inl JSONDecodeError
           | Scanned v rest \<Rightarrow> if skip_ws rest = [] then Inr v else Inl JSONDecodeError)"

text \<open>
  An environment to run the model on concrete inputs: the remote service gives the
  listed answers in turn and no connection after the last, the parser is the one above,
  and the digest is replaced by the identity. \<open>ok content\<close> is an answer with status 200
  whose first choice has the given text as its content.
\<close>

definition envelope :: "ustring \<Rightarrow> json" where
  "envelope content =
     JObject [(u ''choices'',
       JArray [JObject [(u ''message'', JObject [(u ''content'', JString content)])]])]"

definition ok :: "ustring \<Rightarrow> response option" where
  "ok content = Some (Response 200 (Some (envelope content)))"

definition stub_env :: "response option list \<Rightarrow> env" where
  "stub_env answers =
     \<lparr>md5_hex = (\<lambda>s. s), json_loads = py_json_loads,
      float_class = (\<lambda>x. if x = u ''NaN'' then FNaN else FOther x),
      float_repr = (\<lambda>x. x),
      post = (\<lambda>n req. if n < length answers then answers ! n else None)\<rparr>"

definition empty_state :: state where
  "empty_state = \<lparr>CACHE = Map.empty, sent = []\<rparr>"

section \<open>The loops and the cache, call by call\<close>

text \<open>
  What each row of the roster gave, in roster order: the stripped name and role with the
  result of the generator call made for the row, every call starting from the state and
  the used titles the call before it left. \<open>succeeded\<close> keeps the records and \<open>failed\<close>
  the errors, each in the order of the rows.
\<close>

type_synonym outcome = "ustring \<times> ustring \<times> (py_error + pydict)"

fun succeeded :: "outcome list \<Rightarrow> pydict list" where
  "succeeded [] = []"
| "succeeded ((student_name, role_ru, Inr task_json) # os) = task_json # succeeded os"
| "succeeded ((student_name, role_ru, Inl e) # os) = succeeded os"

fun failed :: "outcome list \<Rightarrow> failure list" where
  "failed [] = []"
| "failed ((student_name, role_ru, Inr task_json) # os) = failed os"
| "failed ((student_name, role_ru, Inl e) # os) = (student_name, role_ru, e) # failed os"

fun batch_trace7 ::
  "env \<Rightarrow> ustring \<Rightarrow> ustring \<Rightarrow> ustring \<Rightarrow> row list \<Rightarrow> titles option \<Rightarrow> state \<Rightarrow> outcome list" where
  "batch_trace7 E document_text api_key model [] used_titles s = []"
| "batch_trace7 E document_text api_key model ((name_cell, role_cell) # rows) used_titles s =
     (case generate_task_json7 E document_text (py_strip name_cell) (py_strip role_cell)
             api_key model used_titles s of
        (res, used_titles', s') \<Rightarrow>
          (py_strip name_cell, py_strip role_cell, res)
            # batch_trace7 E document_text api_key model rows used_titles' s')"

fun batch_trace5 ::
  "env \<Rightarrow> ustring \<Rightarrow> ustring \<Rightarrow> ustring \<Rightarrow> row list \<Rightarrow> request list \<Rightarrow> outcome list" where
  "batch_trace5 E document_text api_key model [] reqs = []"
| "batch_trace5 E document_text api_key model ((name_cell, role_cell) # rows) reqs =
     (case generate_task_json5 E document_text (py_strip name_cell) (py_strip role_cell)
             api_key model reqs of
        (res, reqs') \<Rightarrow>
          (py_strip name_cell, py_strip role_cell, res)
            # batch_trace5 E document_text api_key model rows reqs')"

text \<open>Any sequence of calls of the generator of test7.py, and the state it leaves.\<close>

record call =
  call_document_text :: ustring
  call_student_name :: ustring
  call_role_ru :: ustring
  call_api_key :: ustring
  call_model :: ustring
  call_used_titles :: "titles option"

fun run_calls7 :: "env \<Rightarrow> call list \<Rightarrow> state \<Rightarrow> state" where
  "run_calls7 E [] s = s"
| "run_calls7 E (c # cs) s =
     run_calls7 E cs
       (snd (snd (generate_task_json7 E (call_document_text c) (call_student_name c)
                    (call_role_ru c) (call_api_key c) (call_model c) (call_used_titles c) s)))"

section \<open>Fields of a record\<close>

text \<open>
  \<open>py_keys d\<close> is \<open>set(d.keys())\<close>. A record has the fields of a list when all of them
  are among its keys, and the cache has them when every record it holds does. The
  generator of test7.py writes \<open>forced_fields\<close> itself; \<open>seven_fields\<close> are those and
  the title and the description.
\<close>

definition py_keys :: "pydict \<Rightarrow> ustring set" where
  "py_keys d = fst ` set d"

definition has_fields :: "ustring list \<Rightarrow> pydict \<Rightarrow> bool" where
  "has_fields names rec \<longleftrightarrow> set names \<subseteq> py_keys rec"

definition cache_has :: "ustring list \<Rightarrow> state \<Rightarrow> bool" where
  "cache_has names s \<longleftrightarrow> (\<forall>key rec. CACHE s key = Some rec \<longrightarrow> has_fields names rec)"

definition forced_fields :: "ustring list" where
  "forced_fields = [u ''role'', u ''executor'', u ''author'', u ''status'', u ''priority'']"

definition seven_fields :: "ustring list" where
  "seven_fields = required_fields @ [u ''priority'']"

section \<open>Concrete answers\<close>

text \<open>
  Two answers of the remote service used to run the model: an object with a title and a
  description only, and one with the six fields test5.py asks for, whose status is not
  \<open>"Todo"\<close>. \<open>demo_record\<close> is what test7.py makes of the first, and \<open>demo_state\<close>
  the state after one such call from the empty state. \<open>long_doc c\<close> is a document of
  1001 characters that differs from \<open>long_doc c'\<close> in the last one only.
\<close>

definition demo_body :: ustring where
  "demo_body = u ''\"title\":\"T\",\"description\":\"D\"''"

definition demo_answer :: ustring where
  "demo_answer = 123 # demo_body @ [125]"

definition demo_object :: pydict where
  "demo_object = [(u ''title'', JString (u ''T'')), (u ''description'', JString (u ''D''))]"

definition demo_record :: "ustring \<Rightarrow> ustring \<Rightarrow> pydict" where
  "demo_record student_name role_ru =
     [(u ''title'', JString (u ''T'')), (u ''description'', JString (u ''D'')),
      (u ''role'', JString role_ru), (u ''executor'', JString student_name),
      (u ''author'', JString (u ''AI'')), (u ''status'', JString (u ''new'')),
      (u ''priority'', JString (u ''medium''))]"

definition demo_state :: "env \<Rightarrow> ustring \<Rightarrow> ustring \<Rightarrow> ustring \<Rightarrow> ustring \<Rightarrow> ustring \<Rightarrow> state" where
  "demo_state E doc n r k m =
     \<lparr>CACHE = [cache_key E doc n r m \<mapsto> demo_record n r],
      sent = [\<lparr>req_api_key = k, req_model = m, req_document_text = doc,
               req_student_name = n, req_role_ru = r\<rparr>]\<rparr>"



text \<open>What test7.py makes of the answer \<open>{}\<close>.\<close>

definition bare_record :: "ustring \<Rightarrow> ustring \<Rightarrow> pydict" where
  "bare_record student_name role_ru =
     [(u ''role'', JString role_ru), (u ''executor'', JString student_name),
      (u ''author'', JString (u ''AI'')), (u ''status'', JString (u ''new'')),
      (u ''priority'', JString (u ''medium''))]"

definition long_doc :: "nat \<Rightarrow> ustring" where
  "long_doc c = replicate 1000 97 @ [c]"

definition full_answer :: ustring where
  "full_answer = u ''{\"title\":\"T\",\"description\":\"D\",\"status\":\"Done\",\"role\":\"R\",\"executor\":\"E\",\"author\":\"A\"}''"

definition full_object :: pydict where
  "full_object = [(u ''title'', JString (u ''T'')), (u ''description'', JString (u ''D'')),
      (u ''status'', JString (u ''Done'')), (u ''role'', JString (u ''R'')),
      (u ''executor'', JString (u ''E'')), (u ''author'', JString (u ''A''))]"

section \<open>Properties of the normalisation\<close>

lemma py_get_update: "py_get (AList.update k v d) k' = (if k' = k then v else py_get d k')"
  by (simp add: py_get_def update_conv')

lemma map_of_strip_newlines_other:
  "k' \<noteq> k \<Longrightarrow> map_of (strip_newlines k d) k' = map_of d k'"
  by (simp add: strip_newlines_def update_conv' split: json.splits)

lemma normalize_object:
  "normalize_json_result (JObject d) student_name role_ru =
     Inr (strip_newlines (u ''description'') (strip_newlines (u ''title'')
       (let d3 = AList.update (u ''author'') (JString (u ''AI''))
                   (AList.update (u ''executor'') (JString student_name)
                     (AList.update (u ''role'') (JString role_ru) d));
            d4 = (if py_get d3 (u ''status'') \<notin> set (map JString STATUS_CHOICES)
                  then AList.update (u ''status'') (JString (u ''new'')) d3 else d3)
        in (if py_get d4 (u ''priority'') \<notin> set (map JString PRIORITY_CHOICES)
            then AList.update (u ''priority'') (JString (u ''medium'')) d4 else d4))))"
  by (simp add: normalize_json_result_def Let_def)

lemma normalize_not_object:
  "(\<forall>d. data \<noteq> JObject d) \<Longrightarrow>
     normalize_json_result data student_name role_ru = Inl (NotAnObject student_name)"
  by (cases data) (simp_all add: normalize_json_result_def)

text \<open>
  C2. Whatever the parsed answer carries under \<open>role\<close>, \<open>executor\<close> and \<open>author\<close>, the
  normalised record has \<open>executor\<close> equal to the student name, \<open>role\<close> equal to the
  localized role and \<open>author\<close> equal to \<open>"AI"\<close>. A parsed answer that is not an object has
  no normalised record: the function raises.
\<close>

theorem normalize_forces_role_executor_author:
  "case data of
     JObject d \<Rightarrow>
       (\<exists>r. normalize_json_result data student_name role_ru = Inr r
          \<and> map_of r (u ''executor'') = Some (JString student_name)
          \<and> map_of r (u ''role'') = Some (JString role_ru)
          \<and> map_of r (u ''author'') = Some (JString (u ''AI'')))
   | _ \<Rightarrow> normalize_json_result data student_name role_ru = Inl (NotAnObject student_name)"
proof (cases data)
  case (JObject d)
  then show ?thesis
    by (simp add: normalize_object Let_def map_of_strip_newlines_other update_conv' u_def)
qed (simp_all add: normalize_json_result_def)

theorem normalize_forces_role_executor_author_witness:
  "\<exists>r. normalize_json_result
         (JObject [(u ''title'', JString (u ''Plan'')), (u ''role'', JString (u ''Boss'')),
                   (u ''executor'', JInt 7), (u ''author'', JNull)])
         (u ''Ivan'') (u ''Tester'') = Inr r
     \<and> map_of r (u ''executor'') = Some (JString (u ''Ivan''))
     \<and> map_of r (u ''role'') = Some (JString (u ''Tester''))
     \<and> map_of r (u ''author'') = Some (JString (u ''AI''))"
  using normalize_forces_role_executor_author
    [of "JObject [(u ''title'', JString (u ''Plan'')), (u ''role'', JString (u ''Boss'')),
                  (u ''executor'', JInt 7), (u ''author'', JNull)]" "u ''Ivan''" "u ''Tester''"]
  by simp

lemma choice_not_null:
  "v \<in> set (map JString cs) \<Longrightarrow> py_get d k = v \<Longrightarrow> map_of d k = Some v"
  by (auto simp: py_get_def split: option.splits)

text \<open>
  C6. The normalised record's \<open>status\<close> is one of the four status values and its
  \<open>priority\<close> one of the four priority values: a value of the answer that is in the list
  is kept, and anything else (a missing key, a value of another type, an unknown word)
  becomes \<open>"new"\<close>, respectively \<open>"medium"\<close>.
\<close>

theorem normalize_status_priority_in_enum:
  "\<exists>r. normalize_json_result (JObject d) student_name role_ru = Inr r
     \<and> map_of r (u ''status'') =
         Some (if py_get d (u ''status'') \<in> set (map JString STATUS_CHOICES)
               then py_get d (u ''status'') else JString (u ''new''))
     \<and> map_of r (u ''priority'') =
         Some (if py_get d (u ''priority'') \<in> set (map JString PRIORITY_CHOICES)
               then py_get d (u ''priority'') else JString (u ''medium''))
     \<and> (\<exists>s \<in> set STATUS_CHOICES. map_of r (u ''status'') = Some (JString s))
     \<and> (\<exists>p \<in> set PRIORITY_CHOICES. map_of r (u ''priority'') = Some (JString p))"
proof -
  let ?d3 = "AList.update (u ''author'') (JString (u ''AI''))
               (AList.update (u ''executor'') (JString student_name)
                 (AList.update (u ''role'') (JString role_ru) d))"
  let ?d4 = "if py_get ?d3 (u ''status'') \<notin> set (map JString STATUS_CHOICES)
             then AList.update (u ''status'') (JString (u ''new'')) ?d3 else ?d3"
  let ?d5 = "if py_get ?d4 (u ''priority'') \<notin> set (map JString PRIORITY_CHOICES)
             then AList.update (u ''priority'') (JString (u ''medium'')) ?d4 else ?d4"
  let ?r = "strip_newlines (u ''description'') (strip_newlines (u ''title'') ?d5)"
  have keys: "u ''status'' \<noteq> u ''title''" "u ''status'' \<noteq> u ''description''"
    "u ''priority'' \<noteq> u ''title''" "u ''priority'' \<noteq> u ''description''"
    "u ''status'' \<noteq> u ''priority''" "u ''status'' \<noteq> u ''role''"
    "u ''status'' \<noteq> u ''executor''" "u ''status'' \<noteq> u ''author''"
    "u ''priority'' \<noteq> u ''role''" "u ''priority'' \<noteq> u ''executor''"
    "u ''priority'' \<noteq> u ''author''"
    by (simp_all add: u_def)
  have r: "normalize_json_result (JObject d) student_name role_ru = Inr ?r"
    by (simp add: normalize_object Let_def)
  have g3s: "py_get ?d3 (u ''status'') = py_get d (u ''status'')"
    using keys by (simp add: py_get_update)
  have m3s: "map_of ?d3 (u ''status'') = map_of d (u ''status'')"
    using keys by (simp add: update_conv')
  have st5: "map_of ?d5 (u ''status'') = map_of ?d4 (u ''status'')"
    using keys by (simp add: update_conv')
  have st4: "map_of ?d4 (u ''status'') =
      Some (if py_get d (u ''status'') \<in> set (map JString STATUS_CHOICES)
            then py_get d (u ''status'') else JString (u ''new''))"
  proof (cases "py_get d (u ''status'') \<in> set (map JString STATUS_CHOICES)")
    case True
    then have "map_of d (u ''status'') = Some (py_get d (u ''status''))"
      by (rule choice_not_null) simp
    with True show ?thesis
      using g3s m3s by simp
  next
    case False
    then show ?thesis
      using g3s by (simp add: update_conv')
  qed
  have g4p: "py_get ?d4 (u ''priority'') = py_get d (u ''priority'')"
    using keys by (simp add: py_get_update)
  have m4p: "map_of ?d4 (u ''priority'') = map_of d (u ''priority'')"
    using keys by (simp add: update_conv')
  have pr5: "map_of ?d5 (u ''priority'') =
      Some (if py_get d (u ''priority'') \<in> set (map JString PRIORITY_CHOICES)
            then py_get d (u ''priority'') else JString (u ''medium''))"
  proof (cases "py_get d (u ''priority'') \<in> set (map JString PRIORITY_CHOICES)")
    case True
    then have "map_of d (u ''priority'') = Some (py_get d (u ''priority''))"
      by (rule choice_not_null) simp
    with True show ?thesis
      using g4p m4p by simp
  next
    case False
    then show ?thesis
      using g4p by (simp add: update_conv')
  qed
  have rs: "map_of ?r (u ''status'') = map_of ?d5 (u ''status'')"
    using keys by (simp add: map_of_strip_newlines_other)
  have rp: "map_of ?r (u ''priority'') = map_of ?d5 (u ''priority'')"
    using keys by (simp add: map_of_strip_newlines_other)
  have s_eq: "map_of ?r (u ''status'') =
      Some (if py_get d (u ''status'') \<in> set (map JString STATUS_CHOICES)
            then py_get d (u ''status'') else JString (u ''new''))"
    using rs st5 st4 by simp
  have p_eq: "map_of ?r (u ''priority'') =
      Some (if py_get d (u ''priority'') \<in> set (map JString PRIORITY_CHOICES)
            then py_get d (u ''priority'') else JString (u ''medium''))"
    using rp pr5 by simp
  have s_in: "\<exists>s \<in> set STATUS_CHOICES. map_of ?r (u ''status'') = Some (JString s)"
  proof (cases "py_get d (u ''status'') \<in> set (map JString STATUS_CHOICES)")
    case True
    then show ?thesis unfolding s_eq by auto
  next
    case False
    then show ?thesis unfolding s_eq by (simp add: STATUS_CHOICES_def)
  qed
  have p_in: "\<exists>p \<in> set PRIORITY_CHOICES. map_of ?r (u ''priority'') = Some (JString p)"
  proof (cases "py_get d (u ''priority'') \<in> set (map JString PRIORITY_CHOICES)")
    case True
    then show ?thesis unfolding p_eq by auto
  next
    case False
    then show ?thesis unfolding p_eq by (simp add: PRIORITY_CHOICES_def)
  qed
  show ?thesis
    using r s_eq p_eq s_in p_in by blast
qed

theorem normalize_status_priority_in_enum_witness:
  "\<exists>r. normalize_json_result
         (JObject [(u ''status'', JString (u ''done'')), (u ''priority'', JString (u ''high''))])
         (u ''Ivan'') (u ''Tester'') = Inr r
     \<and> map_of r (u ''status'') = Some (JString (u ''new''))
     \<and> map_of r (u ''priority'') = Some (JString (u ''high''))"
  using normalize_status_priority_in_enum
    [of "[(u ''status'', JString (u ''done'')), (u ''priority'', JString (u ''high''))]"
        "u ''Ivan''" "u ''Tester''"]
  by (auto simp add: py_get_def STATUS_CHOICES_def PRIORITY_CHOICES_def u_def)

lemma set_py_strip: "set (py_strip s) \<subseteq> set s"
proof -
  have "set (py_strip s) \<subseteq> set (dropWhile py_isspace s)"
    unfolding py_strip_def using set_dropWhileD [of _ py_isspace "rev (dropWhile py_isspace s)"]
    by auto
  also have "\<dots> \<subseteq> set s"
    using set_dropWhileD [of _ py_isspace s] by auto
  finally show ?thesis .
qed

lemma no_newline_after_replace:
  "10 \<notin> set (py_strip (py_replace 13 32 (py_replace 10 32 s)))"
  "13 \<notin> set (py_strip (py_replace 13 32 (py_replace 10 32 s)))"
proof -
  have "10 \<notin> set (py_replace 13 32 (py_replace 10 32 s))"
    by (auto simp: py_replace_def)
  then show "10 \<notin> set (py_strip (py_replace 13 32 (py_replace 10 32 s)))"
    using set_py_strip by blast
  have "13 \<notin> set (py_replace 13 32 (py_replace 10 32 s))"
    by (auto simp: py_replace_def)
  then show "13 \<notin> set (py_strip (py_replace 13 32 (py_replace 10 32 s)))"
    using set_py_strip by blast
qed

lemma map_of_strip_newlines_same:
  "map_of d k = Some (JString s) \<Longrightarrow>
     map_of (strip_newlines k d) k
       = Some (JString (py_strip (py_replace 13 32 (py_replace 10 32 s))))"
  by (simp add: strip_newlines_def py_get_def update_conv')

lemma normalize_keeps_title_description:
  assumes "k = u ''title'' \<or> k = u ''description''"
  shows "map_of (let d3 = AList.update (u ''author'') (JString (u ''AI''))
                   (AList.update (u ''executor'') (JString student_name)
                     (AList.update (u ''role'') (JString role_ru) d));
            d4 = (if py_get d3 (u ''status'') \<notin> set (map JString STATUS_CHOICES)
                  then AList.update (u ''status'') (JString (u ''new'')) d3 else d3)
        in (if py_get d4 (u ''priority'') \<notin> set (map JString PRIORITY_CHOICES)
            then AList.update (u ''priority'') (JString (u ''medium'')) d4 else d4)) k
     = map_of d k"
  using assms by (auto simp add: Let_def update_conv' u_def)

lemma normalize_text_fields:
  "\<exists>rec. normalize_json_result (JObject d) student_name role_ru = Inr rec
     \<and> (\<forall>t. map_of d (u ''title'') = Some (JString t) \<longrightarrow>
           map_of rec (u ''title'') = Some (JString (clean_text t)))
     \<and> (\<forall>t. map_of d (u ''description'') = Some (JString t) \<longrightarrow>
           map_of rec (u ''description'') = Some (JString (clean_text t)))"
proof -
  define base where "base =
      (let d3 = AList.update (u ''author'') (JString (u ''AI''))
                   (AList.update (u ''executor'') (JString student_name)
                     (AList.update (u ''role'') (JString role_ru) d));
            d4 = (if py_get d3 (u ''status'') \<notin> set (map JString STATUS_CHOICES)
                  then AList.update (u ''status'') (JString (u ''new'')) d3 else d3)
        in (if py_get d4 (u ''priority'') \<notin> set (map JString PRIORITY_CHOICES)
            then AList.update (u ''priority'') (JString (u ''medium'')) d4 else d4))"
  let ?r = "strip_newlines (u ''description'') (strip_newlines (u ''title'') base)"
  have ne: "u ''title'' \<noteq> u ''description''" "u ''description'' \<noteq> u ''title''"
    by (simp_all add: u_def)
  have r: "normalize_json_result (JObject d) student_name role_ru = Inr ?r"
    unfolding normalize_object base_def ..
  have bt: "map_of base (u ''title'') = map_of d (u ''title'')"
    unfolding base_def by (rule normalize_keeps_title_description) simp
  have bd: "map_of base (u ''description'') = map_of d (u ''description'')"
    unfolding base_def by (rule normalize_keeps_title_description) simp
  have t: "map_of ?r (u ''title'') = Some (JString (clean_text t))"
    if "map_of d (u ''title'') = Some (JString t)" for t
    using that bt ne by (simp add: map_of_strip_newlines_other map_of_strip_newlines_same)
  have ds: "map_of ?r (u ''description'') = Some (JString (clean_text t))"
    if "map_of d (u ''description'') = Some (JString t)" for t
  proof -
    have "map_of (strip_newlines (u ''title'') base) (u ''description'') = Some (JString t)"
      using that bd ne by (simp add: map_of_strip_newlines_other)
    then show ?thesis
      by (rule map_of_strip_newlines_same)
  qed
  show ?thesis
    using r t ds by blast
qed

text \<open>
  C7. A title or a description that the answer gives as a string is stored with every
  line feed (10) and carriage return (13) replaced by a space and the result stripped,
  so neither character is left in it.
\<close>

theorem normalize_strips_newlines:
  "\<exists>r. normalize_json_result (JObject d) student_name role_ru = Inr r
     \<and> (\<forall>t. map_of d (u ''title'') = Some (JString t) \<longrightarrow>
           map_of r (u ''title'') = Some (JString (clean_text t))
           \<and> 10 \<notin> set (clean_text t) \<and> 13 \<notin> set (clean_text t))
     \<and> (\<forall>t. map_of d (u ''description'') = Some (JString t) \<longrightarrow>
           map_of r (u ''description'') = Some (JString (clean_text t))
           \<and> 10 \<notin> set (clean_text t) \<and> 13 \<notin> set (clean_text t))"
  using normalize_text_fields [of d student_name role_ru] no_newline_after_replace
  by blast

theorem normalize_strips_newlines_witness:
  "\<exists>r. normalize_json_result
          (JObject [(u ''title'', JString (10 # u ''Plan'' @ [13, 10] @ u ''tests'' @ [10])),
                    (u ''description'', JString (u ''a'' @ [10] @ u ''b''))])
          (u ''Ivan'') (u ''Tester'') = Inr r
     \<and> map_of r (u ''title'') = Some (JString (u ''Plan  tests''))
     \<and> map_of r (u ''description'') = Some (JString (u ''a b''))"
  using normalize_strips_newlines
    [of "[(u ''title'', JString (10 # u ''Plan'' @ [13, 10] @ u ''tests'' @ [10])),
          (u ''description'', JString (u ''a'' @ [10] @ u ''b''))]" "u ''Ivan''" "u ''Tester''"]
  by (auto simp add: u_def py_strip_def py_replace_def py_isspace_def)

section \<open>Properties of the cache\<close>

lemma generate7_miss:
  "CACHE s (cache_key E doc n r m) = None \<Longrightarrow>
   generate_task_json7 E doc n r k m ut s =
     (let key = cache_key E doc n r m;
          req = \<lparr>req_api_key = k, req_model = m, req_document_text = doc,
                 req_student_name = n, req_role_ru = r\<rparr>;
          s1 = s\<lparr>sent := sent s @ [req]\<rparr>
      in case fetch_content E (length (sent s)) req of
           Inl e \<Rightarrow> (Inl e, ut, s1)
         | Inr raw_text \<Rightarrow>
             (case json_loads E (extract_json_from_text raw_text) of
                Inl e \<Rightarrow> (Inl (JSONError n raw_text), ut, s1)
              | Inr parsed \<Rightarrow>
                  (case normalize_json_result parsed n r of
                     Inl e \<Rightarrow> (Inl e, ut, s1)
                   | Inr data \<Rightarrow>
                       (case ut of
                          None \<Rightarrow> (Inr data, None, s1\<lparr>CACHE := (CACHE s1)(key \<mapsto> data)\<rparr>)
                        | Some used \<Rightarrow>
                            (case unique_title E data r used of
                               Inl e \<Rightarrow> (Inl e, Some used, s1)
                             | Inr (data', used') \<Rightarrow>
                                 (Inr data', Some used',
                                  s1\<lparr>CACHE := (CACHE s1)(key \<mapsto> data')\<rparr>))))))"
  by (simp add: generate_task_json7_def)


lemma cache_key_prefix:
  "take 1000 doc' = take 1000 doc \<Longrightarrow> cache_key E doc' n r m = cache_key E doc n r m"
  by (simp add: cache_key_def)

lemma generate7_hit:
  "CACHE s (cache_key E doc n r m) = Some cached \<Longrightarrow>
     generate_task_json7 E doc n r k m ut s = (Inr cached, ut, s)"
  by (simp add: generate_task_json7_def)

lemma generate7_cache_mono:
  assumes g: "generate_task_json7 E doc n r k m ut s = (res, ut', s')"
    and c: "CACHE s key = Some c"
  shows "CACHE s' key = Some c"
proof (cases "CACHE s (cache_key E doc n r m)")
  case (Some cached)
  then show ?thesis
    using g c by (simp add: generate7_hit)
next
  case None
  then have ne: "key \<noteq> cache_key E doc n r m"
    using c by auto
  show ?thesis
    using g c ne unfolding generate7_miss [OF None] Let_def
    by (simp split: sum.splits option.splits prod.splits) auto
qed

lemma generate7_stores:
  assumes g: "generate_task_json7 E doc n r k m ut s = (Inr rec, ut', s')"
  shows "CACHE s' (cache_key E doc n r m) = Some rec"
proof (cases "CACHE s (cache_key E doc n r m)")
  case (Some cached)
  then show ?thesis
    using g by (simp add: generate7_hit)
next
  case None
  show ?thesis
    using g unfolding generate7_miss [OF None] Let_def
    by (simp split: sum.splits option.splits prod.splits) auto
qed

lemma generate7_miss_sends_request:
  assumes "CACHE s (cache_key E doc n r m) = None"
  shows "sent (snd (snd (generate_task_json7 E doc n r k m ut s)))
       = sent s @ [\<lparr>req_api_key = k, req_model = m, req_document_text = doc,
                     req_student_name = n, req_role_ru = r\<rparr>]"
  unfolding generate7_miss [OF assms] Let_def
  by (simp split: sum.splits option.splits prod.splits)

lemma run_calls7_cache_mono:
  "CACHE s key = Some c \<Longrightarrow> CACHE (run_calls7 E cs s) key = Some c"
proof (induction cs arbitrary: s)
  case Nil
  then show ?case by simp
next
  case (Cons c' cs)
  let ?g = "generate_task_json7 E (call_document_text c') (call_student_name c')
              (call_role_ru c') (call_api_key c') (call_model c') (call_used_titles c') s"
  have "?g = (fst ?g, fst (snd ?g), snd (snd ?g))"
    by simp
  then have "CACHE (snd (snd ?g)) key = Some c"
    using Cons.prems by (rule generate7_cache_mono)
  then show ?case
    using Cons.IH by simp
qed

section \<open>Running the model on the concrete answers\<close>

lemma parse_demo_answer: "py_json_loads demo_answer = Inr (JObject demo_object)"
  by (simp add: demo_answer_def demo_body_def demo_object_def py_json_loads_def u_def
      skip_ws_def json_ws_def cons_chunk_def make_dict_def)

lemma extract_demo_answer: "extract_json_from_text demo_answer = demo_answer"
  by (simp add: demo_answer_def demo_body_def extract_json_from_text_def upto_last_rbrace_def
      u_def)

lemma strip_demo_answer: "py_strip demo_answer = demo_answer"
  by (simp add: demo_answer_def demo_body_def py_strip_def py_isspace_def u_def)

lemma fetch_stub_ok:
  "n < length answers \<Longrightarrow> answers ! n = ok content \<Longrightarrow>
     fetch_content (stub_env answers) n req = Inr (py_strip content)"
  by (simp add: fetch_content_def stub_env_def ok_def envelope_def bind_err_def u_def)

lemma fetch_stub_none:
  "length answers \<le> n \<Longrightarrow> fetch_content (stub_env answers) n req = Inl RequestFailed"
  by (simp add: fetch_content_def stub_env_def)

lemma fetch_stub_status:
  "n < length answers \<Longrightarrow> answers ! n = Some (Response 500 None) \<Longrightarrow>
     fetch_content (stub_env answers) n req = Inl (HTTPError 500)"
  by (simp add: fetch_content_def stub_env_def)

lemma normalize_demo_object:
  "normalize_json_result (JObject demo_object) n r = Inr (demo_record n r)"
  by (simp add: normalize_json_result_def demo_object_def demo_record_def Let_def py_get_def
      strip_newlines_def STATUS_CHOICES_def PRIORITY_CHOICES_def py_strip_def py_replace_def
      py_isspace_def u_def)

lemma unique_title_demo_fresh:
  "(KStr (u ''T''), KStr (u ''D'')) \<notin> ut \<Longrightarrow>
   unique_title (stub_env answers) (demo_record n r) r ut
     = Inr (demo_record n r, insert (KStr (u ''T''), KStr (u ''D'')) ut)"
  by (simp add: unique_title_def demo_record_def bind_err_def in_titles_def add_title_def u_def)

lemma json_loads_stub: "json_loads (stub_env answers) = py_json_loads"
  by (simp add: stub_env_def)

lemma md5_stub: "md5_hex (stub_env answers) s = s"
  by (simp add: stub_env_def)

lemma generate7_demo_miss:
  assumes "CACHE s (cache_key (stub_env answers) doc n r m) = None"
    and "length (sent s) < length answers" and "answers ! length (sent s) = ok demo_answer"
    and "(KStr (u ''T''), KStr (u ''D'')) \<notin> ut"
  shows "generate_task_json7 (stub_env answers) doc n r k m (Some ut) s
     = (Inr (demo_record n r), Some (insert (KStr (u ''T''), KStr (u ''D'')) ut),
        \<lparr>CACHE = (CACHE s)(cache_key (stub_env answers) doc n r m \<mapsto> demo_record n r),
         sent = sent s @ [\<lparr>req_api_key = k, req_model = m, req_document_text = doc,
                            req_student_name = n, req_role_ru = r\<rparr>]\<rparr>)"
  using assms
  by (simp add: generate7_miss fetch_stub_ok strip_demo_answer extract_demo_answer
      json_loads_stub parse_demo_answer normalize_demo_object unique_title_demo_fresh)

lemma take_long_doc: "take 1000 (long_doc c) = replicate 1000 97"
  by (simp add: long_doc_def)

lemma generate7_demo_first:
  "generate_task_json7 (stub_env (ok demo_answer # later)) doc n r k m (Some {}) empty_state
     = (Inr (demo_record n r), Some {(KStr (u ''T''), KStr (u ''D''))},
        demo_state (stub_env (ok demo_answer # later)) doc n r k m)"
  by (simp add: generate7_demo_miss empty_state_def demo_state_def)

lemma parse_full_answer: "py_json_loads full_answer = Inr (JObject full_object)"
  by (simp add: full_answer_def full_object_def py_json_loads_def u_def skip_ws_def json_ws_def
      cons_chunk_def make_dict_def)

lemma strip_names:
  "py_strip (u '' Ivan '') = u ''Ivan''" "py_strip (u ''Analyst'') = u ''Analyst''"
  "py_strip (u ''Maria'') = u ''Maria''" "py_strip (u ''Tester'') = u ''Tester''"
  by (simp_all add: py_strip_def py_isspace_def u_def)

lemma demo_keys_differ:
  "cache_key (stub_env answers) doc (u ''Maria'') (u ''Tester'') m
     \<noteq> cache_key (stub_env answers) doc (u ''Ivan'') (u ''Analyst'') m"
  by (simp add: cache_key_def md5_stub u_def)

lemma demo_state_miss:
  "CACHE (demo_state (stub_env answers) doc (u ''Ivan'') (u ''Analyst'') k m)
     (cache_key (stub_env answers) doc (u ''Maria'') (u ''Tester'') m) = None"
  using demo_keys_differ [of answers doc m] by (simp add: demo_state_def)

lemma sent_demo_state:
  "sent (demo_state E doc n r k m)
     = [\<lparr>req_api_key = k, req_model = m, req_document_text = doc,
          req_student_name = n, req_role_ru = r\<rparr>]"
  by (simp add: demo_state_def)

lemma generate7_demo_second_fails:
  "generate_task_json7 (stub_env [ok demo_answer, Some (Response 500 None)]) doc
       (u ''Maria'') (u ''Tester'') k m ut
       (demo_state (stub_env [ok demo_answer, Some (Response 500 None)]) doc
          (u ''Ivan'') (u ''Analyst'') k m)
   = (Inl (HTTPError 500), ut,
      (demo_state (stub_env [ok demo_answer, Some (Response 500 None)]) doc
          (u ''Ivan'') (u ''Analyst'') k m)
       \<lparr>sent := [\<lparr>req_api_key = k, req_model = m, req_document_text = doc,
                   req_student_name = u ''Ivan'', req_role_ru = u ''Analyst''\<rparr>,
                 \<lparr>req_api_key = k, req_model = m, req_document_text = doc,
                   req_student_name = u ''Maria'', req_role_ru = u ''Tester''\<rparr>]\<rparr>)"
  by (simp add: generate7_miss [OF demo_state_miss] sent_demo_state fetch_stub_status)

lemma run_batch7_demo:
  "run_batch7 (stub_env [ok demo_answer, Some (Response 500 None)]) doc k m
      [(u '' Ivan '', u ''Analyst''), (u ''Maria'', u ''Tester'')] empty_state
   = ([demo_record (u ''Ivan'') (u ''Analyst'')],
      [(u ''Maria'', u ''Tester'', HTTPError 500)],
      Some {(KStr (u ''T''), KStr (u ''D''))},
      (demo_state (stub_env [ok demo_answer, Some (Response 500 None)]) doc
          (u ''Ivan'') (u ''Analyst'') k m)
       \<lparr>sent := [\<lparr>req_api_key = k, req_model = m, req_document_text = doc,
                   req_student_name = u ''Ivan'', req_role_ru = u ''Analyst''\<rparr>,
                 \<lparr>req_api_key = k, req_model = m, req_document_text = doc,
                   req_student_name = u ''Maria'', req_role_ru = u ''Tester''\<rparr>]\<rparr>)"
  by (simp add: run_batch7_def Let_def strip_names generate7_demo_first generate7_demo_second_fails)

lemma strip_full_answer: "py_strip full_answer = full_answer"
  by (simp add: full_answer_def py_strip_def py_isspace_def u_def)

lemma full_object_required: "set required_fields \<subseteq> fst ` set full_object"
  by (simp add: required_fields_def full_object_def)

lemma generate5_full:
  assumes "k \<noteq> []" and "length reqs < length answers"
    and "answers ! length reqs = ok full_answer"
  shows "generate_task_json5 (stub_env answers) doc n r k m reqs
     = (Inr full_object,
        reqs @ [\<lparr>req_api_key = k, req_model = m, req_document_text = doc,
                  req_student_name = n, req_role_ru = r\<rparr>])"
  using assms
  by (simp add: generate_task_json5_def fetch_stub_ok strip_full_answer json_loads_stub
      parse_full_answer full_object_required)

lemma generate5_status:
  assumes "k \<noteq> []" and "length reqs < length answers"
    and "answers ! length reqs = Some (Response 500 None)"
  shows "generate_task_json5 (stub_env answers) doc n r k m reqs
     = (Inl (HTTPError 500),
        reqs @ [\<lparr>req_api_key = k, req_model = m, req_document_text = doc,
                  req_student_name = n, req_role_ru = r\<rparr>])"
  using assms
  by (simp add: generate_task_json5_def fetch_stub_status)

lemma run_batch5_demo:
  "run_batch5 (stub_env [ok full_answer, Some (Response 500 None)]) doc (u ''key'') m
      [(u '' Ivan '', u ''Analyst''), (u ''Maria'', u ''Tester'')] []
   = ([full_object], [(u ''Maria'', u ''Tester'', HTTPError 500)],
      [\<lparr>req_api_key = u ''key'', req_model = m, req_document_text = doc,
         req_student_name = u ''Ivan'', req_role_ru = u ''Analyst''\<rparr>,
       \<lparr>req_api_key = u ''key'', req_model = m, req_document_text = doc,
         req_student_name = u ''Maria'', req_role_ru = u ''Tester''\<rparr>])"
proof -
  have k: "u ''key'' \<noteq> []"
    by (simp add: u_def)
  show ?thesis
    by (simp add: run_batch5_def Let_def strip_names generate5_full [OF k] generate5_status [OF k])
qed






section \<open>The cache across calls\<close>

text \<open>
  C1. When a call of the generator has returned a record, any later call with the same
  first 1000 characters of the document, the same student name, role and model returns
  that record and leaves the state as it found it: the cache is unchanged and no request
  is added to the ones sent. The API key, the used titles and the calls made in between
  do not matter.
\<close>

theorem second_call_is_cache_hit:
  assumes first: "generate_task_json7 E document_text student_name role_ru api_key model
                    used_titles s = (Inr record1, used_titles1, s1)"
    and prefix: "take 1000 document_text' = take 1000 document_text"
  shows "generate_task_json7 E document_text' student_name role_ru api_key' model
           used_titles' (run_calls7 E between s1)
         = (Inr record1, used_titles', run_calls7 E between s1)"
proof -
  have "CACHE s1 (cache_key E document_text student_name role_ru model) = Some record1"
    using first by (rule generate7_stores)
  then have "CACHE (run_calls7 E between s1)
               (cache_key E document_text student_name role_ru model) = Some record1"
    by (rule run_calls7_cache_mono)
  then have "CACHE (run_calls7 E between s1)
               (cache_key E document_text' student_name role_ru model) = Some record1"
    using cache_key_prefix [OF prefix] by simp
  then show ?thesis
    by (rule generate7_hit)
qed

theorem second_call_is_cache_hit_witness:
  "generate_task_json7 (stub_env [ok demo_answer]) (long_doc 99) (u ''Ivan'') (u ''Tester'')
       (u ''key2'') (u ''mistral-small'') None
       (run_calls7 (stub_env [ok demo_answer])
          [\<lparr>call_document_text = long_doc 98, call_student_name = u ''Maria'',
            call_role_ru = u ''Tester'', call_api_key = u ''key1'',
            call_model = u ''mistral-small'', call_used_titles = None\<rparr>]
          (demo_state (stub_env [ok demo_answer]) (long_doc 98) (u ''Ivan'') (u ''Tester'') (u ''key1'') (u ''mistral-small'')))
   = (Inr (demo_record (u ''Ivan'') (u ''Tester'')), None,
      run_calls7 (stub_env [ok demo_answer])
          [\<lparr>call_document_text = long_doc 98, call_student_name = u ''Maria'',
            call_role_ru = u ''Tester'', call_api_key = u ''key1'',
            call_model = u ''mistral-small'', call_used_titles = None\<rparr>]
          (demo_state (stub_env [ok demo_answer]) (long_doc 98) (u ''Ivan'') (u ''Tester'') (u ''key1'') (u ''mistral-small'')))"
proof -
  have prefix: "take 1000 (long_doc 99) = take 1000 (long_doc 98)"
    by (simp add: take_long_doc)
  show ?thesis
    by (rule second_call_is_cache_hit [OF generate7_demo_first prefix])
qed

text \<open>
  C10. When the cache holds the computed key, the call returns the cached record as it
  is stored, hands back the used titles it was given (nothing read, nothing added, no
  suffix), and leaves the state unchanged.
\<close>

theorem cache_hit_leaves_used_titles:
  assumes "CACHE s (cache_key E document_text student_name role_ru model) = Some cached"
  shows "fst (generate_task_json7 E document_text student_name role_ru api_key model
                used_titles s) = Inr cached
       \<and> fst (snd (generate_task_json7 E document_text student_name role_ru api_key model
                used_titles s)) = used_titles
       \<and> snd (snd (generate_task_json7 E document_text student_name role_ru api_key model
                used_titles s)) = s"
  using generate7_hit [OF assms] by simp

theorem cache_hit_leaves_used_titles_witness:
  "fst (generate_task_json7 (stub_env []) (u ''Doc'') (u ''Ivan'') (u ''Tester'') (u ''key'')
          (u ''mistral-small'') (Some {(KStr (u ''T''), KStr (u ''D''))})
          (demo_state (stub_env []) (u ''Doc'') (u ''Ivan'') (u ''Tester'') (u ''key'') (u ''mistral-small'')))
     = Inr (demo_record (u ''Ivan'') (u ''Tester''))
   \<and> fst (snd (generate_task_json7 (stub_env []) (u ''Doc'') (u ''Ivan'') (u ''Tester'')
          (u ''key'') (u ''mistral-small'') (Some {(KStr (u ''T''), KStr (u ''D''))})
          (demo_state (stub_env []) (u ''Doc'') (u ''Ivan'') (u ''Tester'') (u ''key'') (u ''mistral-small''))))
     = Some {(KStr (u ''T''), KStr (u ''D''))}
   \<and> snd (snd (generate_task_json7 (stub_env []) (u ''Doc'') (u ''Ivan'') (u ''Tester'')
          (u ''key'') (u ''mistral-small'') (Some {(KStr (u ''T''), KStr (u ''D''))})
          (demo_state (stub_env []) (u ''Doc'') (u ''Ivan'') (u ''Tester'') (u ''key'') (u ''mistral-small''))))
     = demo_state (stub_env []) (u ''Doc'') (u ''Ivan'') (u ''Tester'') (u ''key'') (u ''mistral-small'')"
proof -
  have "CACHE (demo_state (stub_env []) (u ''Doc'') (u ''Ivan'') (u ''Tester'') (u ''key'') (u ''mistral-small''))
          (cache_key (stub_env []) (u ''Doc'') (u ''Ivan'') (u ''Tester'') (u ''mistral-small''))
        = Some (demo_record (u ''Ivan'') (u ''Tester''))"
    by (simp add: demo_state_def cache_key_def md5_stub)
  then show ?thesis
    by (rule cache_hit_leaves_used_titles)
qed

section \<open>Properties of the loops\<close>


lemma batch_loop7_trace:
  "batch_loop7 E doc k m rows (results, errors, ut, s) = (results', errors', ut', s') \<Longrightarrow>
     results' = results @ succeeded (batch_trace7 E doc k m rows ut s)
     \<and> errors' = errors @ failed (batch_trace7 E doc k m rows ut s)"
proof (induction rows arbitrary: results errors ut s)
  case Nil
  then show ?case by simp
next
  case (Cons row rows)
  obtain nc rc where row: "row = (nc, rc)" by (cases row)
  obtain res ut1 s1 where g:
    "generate_task_json7 E doc (py_strip nc) (py_strip rc) k m ut s = (res, ut1, s1)"
    by (cases "generate_task_json7 E doc (py_strip nc) (py_strip rc) k m ut s")
  show ?case
  proof (cases res)
    case (Inl e)
    with Cons.prems row g have
      "batch_loop7 E doc k m rows (results, errors @ [(py_strip nc, py_strip rc, e)], ut1, s1)
         = (results', errors', ut', s')"
      by (simp add: Let_def)
    from Cons.IH [OF this] show ?thesis
      using row g Inl by simp
  next
    case (Inr task)
    with Cons.prems row g have
      "batch_loop7 E doc k m rows (results @ [task], errors, ut1, s1)
         = (results', errors', ut', s')"
      by (simp add: Let_def)
    from Cons.IH [OF this] show ?thesis
      using row g Inr by simp
  qed
qed

lemma batch_loop5_trace:
  "batch_loop5 E doc k m rows (results, errors, reqs) = (results', errors', reqs') \<Longrightarrow>
     results' = results @ succeeded (batch_trace5 E doc k m rows reqs)
     \<and> errors' = errors @ failed (batch_trace5 E doc k m rows reqs)"
proof (induction rows arbitrary: results errors reqs)
  case Nil
  then show ?case by simp
next
  case (Cons row rows)
  obtain nc rc where row: "row = (nc, rc)" by (cases row)
  obtain res reqs1 where g:
    "generate_task_json5 E doc (py_strip nc) (py_strip rc) k m reqs = (res, reqs1)"
    by (cases "generate_task_json5 E doc (py_strip nc) (py_strip rc) k m reqs")
  show ?case
  proof (cases res)
    case (Inl e)
    with Cons.prems row g have
      "batch_loop5 E doc k m rows (results, errors @ [(py_strip nc, py_strip rc, e)], reqs1)
         = (results', errors', reqs')"
      by (simp add: Let_def)
    from Cons.IH [OF this] show ?thesis
      using row g Inl by simp
  next
    case (Inr task)
    with Cons.prems row g have
      "batch_loop5 E doc k m rows (results @ [task], errors, reqs1)
         = (results', errors', reqs')"
      by (simp add: Let_def)
    from Cons.IH [OF this] show ?thesis
      using row g Inr by simp
  qed
qed

lemma length_succeeded_failed: "length (succeeded os) + length (failed os) = length os"
  by (induction os rule: succeeded.induct) simp_all

lemma batch_trace7_students:
  "map (\<lambda>(n, r, res). (n, r)) (batch_trace7 E doc k m rows ut s)
     = map (\<lambda>(nc, rc). (py_strip nc, py_strip rc)) rows"
  by (induction rows arbitrary: ut s) (auto split: prod.splits)

lemma batch_trace5_students:
  "map (\<lambda>(n, r, res). (n, r)) (batch_trace5 E doc k m rows reqs)
     = map (\<lambda>(nc, rc). (py_strip nc, py_strip rc)) rows"
  by (induction rows arbitrary: reqs) (auto split: prod.splits)

text \<open>
  C3. In both scripts the loop makes one call per row, in roster order, and a failed call
  does not stop it: \<open>results\<close> holds the records of the calls that succeeded and
  \<open>errors\<close> the failures of the others, both in roster order, so their lengths add up
  to the number of rows.
\<close>

theorem batch_results_and_errors:
  "(run_batch7 E document_text api_key model rows s = (results, errors, used_titles, s') \<longrightarrow>
      length results + length errors = length rows
      \<and> map (\<lambda>(n, r, res). (n, r)) (batch_trace7 E document_text api_key model rows (Some {}) s)
          = map (\<lambda>(nc, rc). (py_strip nc, py_strip rc)) rows
      \<and> results = succeeded (batch_trace7 E document_text api_key model rows (Some {}) s)
      \<and> errors = failed (batch_trace7 E document_text api_key model rows (Some {}) s))
   \<and> (run_batch5 E5 document_text5 api_key5 model5 rows5 reqs = (results5, errors5, reqs') \<longrightarrow>
      length results5 + length errors5 = length rows5
      \<and> map (\<lambda>(n, r, res). (n, r)) (batch_trace5 E5 document_text5 api_key5 model5 rows5 reqs)
          = map (\<lambda>(nc, rc). (py_strip nc, py_strip rc)) rows5
      \<and> results5 = succeeded (batch_trace5 E5 document_text5 api_key5 model5 rows5 reqs)
      \<and> errors5 = failed (batch_trace5 E5 document_text5 api_key5 model5 rows5 reqs))"
proof (intro conjI impI)
  assume r: "run_batch7 E document_text api_key model rows s = (results, errors, used_titles, s')"
  let ?tr = "batch_trace7 E document_text api_key model rows (Some {}) s"
  have *: "results = succeeded ?tr \<and> errors = failed ?tr"
    using batch_loop7_trace [of E document_text api_key model rows "[]" "[]" "Some {}" s]
      r by (simp add: run_batch7_def)
  show "results = succeeded ?tr" "errors = failed ?tr"
    using * by simp_all
  show st: "map (\<lambda>(n, r, res). (n, r)) ?tr = map (\<lambda>(nc, rc). (py_strip nc, py_strip rc)) rows"
    by (rule batch_trace7_students)
  have "length ?tr = length rows"
    using arg_cong [OF st, of length] by simp
  then show "length results + length errors = length rows"
    using * length_succeeded_failed [of ?tr] by simp
next
  assume r: "run_batch5 E5 document_text5 api_key5 model5 rows5 reqs = (results5, errors5, reqs')"
  let ?tr = "batch_trace5 E5 document_text5 api_key5 model5 rows5 reqs"
  have *: "results5 = succeeded ?tr \<and> errors5 = failed ?tr"
    using batch_loop5_trace [of E5 document_text5 api_key5 model5 rows5 "[]" "[]" reqs]
      r by (simp add: run_batch5_def)
  show "results5 = succeeded ?tr" "errors5 = failed ?tr"
    using * by simp_all
  show st: "map (\<lambda>(n, r, res). (n, r)) ?tr = map (\<lambda>(nc, rc). (py_strip nc, py_strip rc)) rows5"
    by (rule batch_trace5_students)
  have "length ?tr = length rows5"
    using arg_cong [OF st, of length] by simp
  then show "length results5 + length errors5 = length rows5"
    using * length_succeeded_failed [of ?tr] by simp
qed

theorem batch_results_and_errors_witness:
  "run_batch7 (stub_env [ok demo_answer, Some (Response 500 None)]) (u ''Doc'') (u ''key'')
      (u ''mistral-small'') [(u '' Ivan '', u ''Analyst''), (u ''Maria'', u ''Tester'')]
      empty_state
   = ([demo_record (u ''Ivan'') (u ''Analyst'')],
      [(u ''Maria'', u ''Tester'', HTTPError 500)],
      Some {(KStr (u ''T''), KStr (u ''D''))},
      (demo_state (stub_env [ok demo_answer, Some (Response 500 None)]) (u ''Doc'')
          (u ''Ivan'') (u ''Analyst'') (u ''key'') (u ''mistral-small''))
       \<lparr>sent := [\<lparr>req_api_key = u ''key'', req_model = u ''mistral-small'',
                   req_document_text = u ''Doc'',
                   req_student_name = u ''Ivan'', req_role_ru = u ''Analyst''\<rparr>,
                 \<lparr>req_api_key = u ''key'', req_model = u ''mistral-small'',
                   req_document_text = u ''Doc'',
                   req_student_name = u ''Maria'', req_role_ru = u ''Tester''\<rparr>]\<rparr>)
   \<and> length [demo_record (u ''Ivan'') (u ''Analyst'')]
       + length [(u ''Maria'', u ''Tester'', HTTPError 500)]
     = length [(u '' Ivan '', u ''Analyst''), (u ''Maria'', u ''Tester'')]
   \<and> [demo_record (u ''Ivan'') (u ''Analyst'')]
     = succeeded (batch_trace7 (stub_env [ok demo_answer, Some (Response 500 None)]) (u ''Doc'')
         (u ''key'') (u ''mistral-small'')
         [(u '' Ivan '', u ''Analyst''), (u ''Maria'', u ''Tester'')] (Some {}) empty_state)
   \<and> run_batch5 (stub_env [ok full_answer, Some (Response 500 None)]) (u ''Doc'') (u ''key'')
      (u ''mistral-small'') [(u '' Ivan '', u ''Analyst''), (u ''Maria'', u ''Tester'')] []
   = ([full_object], [(u ''Maria'', u ''Tester'', HTTPError 500)],
      [\<lparr>req_api_key = u ''key'', req_model = u ''mistral-small'', req_document_text = u ''Doc'',
         req_student_name = u ''Ivan'', req_role_ru = u ''Analyst''\<rparr>,
       \<lparr>req_api_key = u ''key'', req_model = u ''mistral-small'', req_document_text = u ''Doc'',
         req_student_name = u ''Maria'', req_role_ru = u ''Tester''\<rparr>])
   \<and> [(u ''Maria'', u ''Tester'', HTTPError 500)]
     = failed (batch_trace5 (stub_env [ok full_answer, Some (Response 500 None)]) (u ''Doc'')
         (u ''key'') (u ''mistral-small'')
         [(u '' Ivan '', u ''Analyst''), (u ''Maria'', u ''Tester'')] [])"
  using batch_results_and_errors
    [of "stub_env [ok demo_answer, Some (Response 500 None)]" "u ''Doc''" "u ''key''"
        "u ''mistral-small''" "[(u '' Ivan '', u ''Analyst''), (u ''Maria'', u ''Tester'')]"
        empty_state _ _ _ _
        "stub_env [ok full_answer, Some (Response 500 None)]" "u ''Doc''" "u ''key''"
        "u ''mistral-small''" "[(u '' Ivan '', u ''Analyst''), (u ''Maria'', u ''Tester'')]"
        "[]"]
    run_batch7_demo [of "u ''Doc''" "u ''key''" "u ''mistral-small''"]
    run_batch5_demo [of "u ''Doc''" "u ''mistral-small''"]
  by blast

section \<open>The title check\<close>


lemma add_title_mono: "ut \<subseteq> add_title E t d ut"
  by (auto simp: add_title_def)

lemma unique_title_mono:
  assumes "unique_title E data role_ru ut = Inr (data', ut')"
  shows "ut \<subseteq> ut'"
proof -
  from assms obtain t d where "ut' = add_title E t d ut"
    by (auto simp: unique_title_def bind_err_def Let_def
        split: sum.splits option.splits if_splits)
  then show ?thesis
    using add_title_mono by simp
qed

lemma generate7_titles_mono:
  assumes "generate_task_json7 E doc n r k m (Some ut) s = (res, uto, s')"
  shows "\<exists>ut'. uto = Some ut' \<and> ut \<subseteq> ut'"
proof (cases "CACHE s (cache_key E doc n r m)")
  case (Some cached)
  then show ?thesis
    using assms by (auto simp add: generate7_hit)
next
  case None
  show ?thesis
    using assms unfolding generate7_miss [OF None] Let_def
    by (auto split: sum.splits option.splits prod.splits dest: unique_title_mono)
qed





section \<open>The parser model uses up no fuel\<close>













section \<open>Extraction of the object from the answer\<close>










lemma generate5_needs_object:
  "fst (generate_task_json5 E doc n r k m reqs) = Inr rec \<Longrightarrow>
     \<exists>raw. fetch_content E (length reqs)
             \<lparr>req_api_key = k, req_model = m, req_document_text = doc,
              req_student_name = n, req_role_ru = r\<rparr> = Inr raw
          \<and> json_loads E raw = Inr (JObject rec)
          \<and> set required_fields \<subseteq> fst ` set rec"
  by (simp add: generate_task_json5_def Let_def
      split: if_splits sum.splits load_error.splits json.splits)



section \<open>Fields of the returned records\<close>

lemma py_keys_update: "py_keys (AList.update k v d) = insert k (py_keys d)"
  by (simp add: py_keys_def dom_update)

lemma py_keys_map_of: "k \<in> py_keys d \<longleftrightarrow> map_of d k \<noteq> None"
  by (simp add: py_keys_def map_of_eq_None_iff)

lemma py_keys_strip_newlines: "py_keys d \<subseteq> py_keys (strip_newlines k d)"
  by (auto simp add: strip_newlines_def py_keys_update split: json.splits)

lemma choice_has_key:
  assumes "py_get d k \<in> set (map JString cs)"
  shows "k \<in> py_keys d"
proof -
  have "map_of d k = Some (py_get d k)"
    using assms by (rule choice_not_null) simp
  then show ?thesis
    by (simp add: py_keys_map_of)
qed

lemma status_step_keys:
  "insert k (py_keys d)
     \<subseteq> py_keys (if py_get d k \<notin> set (map JString cs) then AList.update k v d else d)"
proof (cases "py_get d k \<in> set (map JString cs)")
  case True
  then show ?thesis
    using choice_has_key [OF True] by auto
next
  case False
  then show ?thesis
    by (simp add: py_keys_update)
qed

lemma normalize_keys:
  assumes "normalize_json_result (JObject d) n r = Inr rec"
  shows "set forced_fields \<subseteq> py_keys rec" and "py_keys d \<subseteq> py_keys rec"
proof -
  define d3 where "d3 = AList.update (u ''author'') (JString (u ''AI''))
               (AList.update (u ''executor'') (JString n)
                 (AList.update (u ''role'') (JString r) d))"
  define d4 where "d4 = (if py_get d3 (u ''status'') \<notin> set (map JString STATUS_CHOICES)
             then AList.update (u ''status'') (JString (u ''new'')) d3 else d3)"
  define d5 where "d5 = (if py_get d4 (u ''priority'') \<notin> set (map JString PRIORITY_CHOICES)
             then AList.update (u ''priority'') (JString (u ''medium'')) d4 else d4)"
  have "normalize_json_result (JObject d) n r
        = Inr (strip_newlines (u ''description'') (strip_newlines (u ''title'') d5))"
    unfolding normalize_object Let_def d5_def d4_def d3_def ..
  then have rec: "rec = strip_newlines (u ''description'') (strip_newlines (u ''title'') d5)"
    using assms by simp
  have k3: "py_keys d3 = insert (u ''author'') (insert (u ''executor'')
              (insert (u ''role'') (py_keys d)))"
    unfolding d3_def by (simp add: py_keys_update)
  have k4: "insert (u ''status'') (py_keys d3) \<subseteq> py_keys d4"
    unfolding d4_def by (rule status_step_keys)
  have k5: "insert (u ''priority'') (py_keys d4) \<subseteq> py_keys d5"
    unfolding d5_def by (rule status_step_keys)
  have up: "py_keys d5 \<subseteq> py_keys rec"
    unfolding rec using py_keys_strip_newlines by blast
  show "set forced_fields \<subseteq> py_keys rec"
    using k3 k4 k5 up unfolding forced_fields_def by auto
  show "py_keys d \<subseteq> py_keys rec"
    using k3 k4 k5 up by blast
qed

lemma unique_title_keys:
  assumes "unique_title E data r ut = Inr (data', ut')"
  shows "u ''title'' \<in> py_keys data'" "u ''description'' \<in> py_keys data'"
    "py_keys data \<subseteq> py_keys data'"
proof -
  from assms obtain t d where td: "map_of data (u ''title'') = Some t"
      "map_of data (u ''description'') = Some d"
    by (auto simp: unique_title_def bind_err_def split: option.splits)
  then have in_data: "u ''title'' \<in> py_keys data" "u ''description'' \<in> py_keys data"
    by (simp_all add: py_keys_map_of)
  from assms td have "data' = data \<or> (\<exists>v. data' = AList.update (u ''title'') v data)"
    by (auto simp: unique_title_def bind_err_def Let_def split: option.splits if_splits)
  then have "py_keys data \<subseteq> py_keys data'"
    by (auto simp: py_keys_update)
  then show "u ''title'' \<in> py_keys data'" "u ''description'' \<in> py_keys data'"
    "py_keys data \<subseteq> py_keys data'"
    using in_data by auto
qed

lemma normalize_only_objects:
  "normalize_json_result parsed n r = Inr data \<Longrightarrow> \<exists>d. parsed = JObject d"
  by (cases parsed) (simp_all add: normalize_json_result_def)

lemma generate7_miss_result:
  assumes "CACHE s (cache_key E doc n r m) = None"
    and "generate_task_json7 E doc n r k m used_titles s = (Inr rec, ut', s')"
  shows "CACHE s' = (CACHE s)(cache_key E doc n r m \<mapsto> rec)
          \<and> (\<exists>parsed data. normalize_json_result parsed n r = Inr data
                \<and> (used_titles = None \<and> rec = data
                    \<or> (\<exists>ut ut2. used_titles = Some ut
                          \<and> unique_title E data r ut = Inr (rec, ut2))))"
  using assms(2) unfolding generate7_miss [OF assms(1)] Let_def
  by (auto split: sum.splits option.splits prod.splits)

lemma generate7_result_cases:
  assumes "generate_task_json7 E doc n r k m used_titles s = (Inr rec, ut', s')"
  shows "(CACHE s (cache_key E doc n r m) = Some rec \<and> s' = s)
       \<or> (CACHE s' = (CACHE s)(cache_key E doc n r m \<mapsto> rec)
          \<and> (\<exists>d data. normalize_json_result (JObject d) n r = Inr data
                \<and> (used_titles = None \<and> rec = data
                    \<or> (\<exists>ut ut2. used_titles = Some ut
                          \<and> unique_title E data r ut = Inr (rec, ut2)))))"
proof (cases "CACHE s (cache_key E doc n r m)")
  case (Some cached)
  then show ?thesis
    using assms by (simp add: generate7_hit)
next
  case None
  from generate7_miss_result [OF None assms] obtain parsed data where
    c: "CACHE s' = (CACHE s)(cache_key E doc n r m \<mapsto> rec)"
    and n: "normalize_json_result parsed n r = Inr data"
    and u: "used_titles = None \<and> rec = data
            \<or> (\<exists>ut ut2. used_titles = Some ut \<and> unique_title E data r ut = Inr (rec, ut2))"
    by blast
  from normalize_only_objects [OF n] obtain d where "parsed = JObject d"
    by blast
  with c n u show ?thesis
    by blast
qed

lemma generate7_keeps_cache_has:
  assumes inv: "cache_has names s"
    and g: "generate_task_json7 E doc n r k m used_titles s = (Inr rec, ut', s')"
    and new: "\<And>d data. normalize_json_result (JObject d) n r = Inr data \<Longrightarrow>
               used_titles = None \<and> rec = data
               \<or> (\<exists>ut ut2. used_titles = Some ut \<and> unique_title E data r ut = Inr (rec, ut2))
               \<Longrightarrow> has_fields names rec"
  shows "has_fields names rec \<and> cache_has names s'"
proof -
  consider (hit) "CACHE s (cache_key E doc n r m) = Some rec" "s' = s"
    | (miss) d data where "CACHE s' = (CACHE s)(cache_key E doc n r m \<mapsto> rec)"
        "normalize_json_result (JObject d) n r = Inr data"
        "used_titles = None \<and> rec = data
         \<or> (\<exists>ut ut2. used_titles = Some ut \<and> unique_title E data r ut = Inr (rec, ut2))"
    using generate7_result_cases [OF g] by blast
  then show ?thesis
  proof cases
    case hit
    then show ?thesis
      using inv unfolding cache_has_def by blast
  next
    case miss
    have "has_fields names rec"
      using new [OF miss(2) miss(3)] .
    then show ?thesis
      using inv miss(1) unfolding cache_has_def by auto
  qed
qed

lemma generate5_has_required:
  "fst (generate_task_json5 E doc n r k m reqs) = Inr rec \<Longrightarrow> has_fields required_fields rec"
  using generate5_needs_object [of E doc n r k m reqs rec]
  by (auto simp: has_fields_def py_keys_def)

lemma generate7_forced:
  assumes "cache_has forced_fields s"
    and "generate_task_json7 E doc n r k m used_titles s = (Inr rec, ut', s')"
  shows "has_fields forced_fields rec \<and> cache_has forced_fields s'"
proof (rule generate7_keeps_cache_has [OF assms])
  fix d data
  assume n: "normalize_json_result (JObject d) n r = Inr data"
    and u: "used_titles = None \<and> rec = data
            \<or> (\<exists>ut ut2. used_titles = Some ut \<and> unique_title E data r ut = Inr (rec, ut2))"
  have "set forced_fields \<subseteq> py_keys data"
    using normalize_keys(1) [OF n] .
  moreover have "py_keys data \<subseteq> py_keys rec"
    using u unique_title_keys(3) by blast
  ultimately show "has_fields forced_fields rec"
    unfolding has_fields_def by blast
qed

lemma seven_fields_set:
  "set seven_fields = insert (u ''title'') (insert (u ''description'') (set forced_fields))"
  by (auto simp: seven_fields_def required_fields_def forced_fields_def)

lemma generate7_seven:
  assumes "cache_has seven_fields s"
    and "generate_task_json7 E doc n r k m (Some ut) s = (Inr rec, ut', s')"
  shows "has_fields seven_fields rec \<and> cache_has seven_fields s'"
proof (rule generate7_keeps_cache_has [OF assms])
  fix d data
  assume n: "normalize_json_result (JObject d) n r = Inr data"
    and u: "Some ut = None \<and> rec = data
            \<or> (\<exists>ut0 ut2. Some ut = Some ut0 \<and> unique_title E data r ut0 = Inr (rec, ut2))"
  then obtain ut2 where ut2: "unique_title E data r ut = Inr (rec, ut2)"
    by auto
  have "set forced_fields \<subseteq> py_keys data"
    using normalize_keys(1) [OF n] .
  then show "has_fields seven_fields rec"
    using unique_title_keys [OF ut2] unfolding has_fields_def seven_fields_set by blast
qed

lemma batch_loop7_seven:
  "cache_has seven_fields s \<Longrightarrow> \<forall>rec \<in> set results. has_fields seven_fields rec \<Longrightarrow>
   batch_loop7 E doc k m rows (results, errors, Some ut, s) = (results', errors', uto, s') \<Longrightarrow>
     (\<forall>rec \<in> set results'. has_fields seven_fields rec) \<and> cache_has seven_fields s'"
proof (induction rows arbitrary: results errors ut s)
  case Nil
  then show ?case by auto
next
  case (Cons row rows)
  obtain nc rc where row: "row = (nc, rc)" by (cases row)
  obtain res ut1 s1 where g:
    "generate_task_json7 E doc (py_strip nc) (py_strip rc) k m (Some ut) s = (res, ut1, s1)"
    by (cases "generate_task_json7 E doc (py_strip nc) (py_strip rc) k m (Some ut) s")
  from generate7_titles_mono [OF g] obtain ut1' where u1: "ut1 = Some ut1'"
    by blast
  show ?case
  proof (cases res)
    case (Inl e)
    have s1: "cache_has seven_fields s1"
    proof (cases "CACHE s (cache_key E doc (py_strip nc) (py_strip rc) m)")
      case None
      then have "CACHE s1 = CACHE s"
        using g Inl unfolding generate7_miss [OF None] Let_def
        by (auto split: sum.splits option.splits prod.splits)
      then show ?thesis
        using Cons.prems(1) by (simp add: cache_has_def)
    next
      case (Some cached)
      then show ?thesis
        using g Inl by (simp add: generate7_hit)
    qed
    from Cons.prems(3) row g u1 Inl have
      "batch_loop7 E doc k m rows (results, errors @ [(py_strip nc, py_strip rc, e)], Some ut1', s1)
         = (results', errors', uto, s')"
      by (simp add: Let_def)
    from Cons.IH [OF s1 Cons.prems(2) this] show ?thesis .
  next
    case (Inr task)
    have t: "has_fields seven_fields task \<and> cache_has seven_fields s1"
      using generate7_seven [OF Cons.prems(1)] g Inr by blast
    then have all: "\<forall>rec \<in> set (results @ [task]). has_fields seven_fields rec"
      using Cons.prems(2) by auto
    from Cons.prems(3) row g u1 Inr have
      "batch_loop7 E doc k m rows (results @ [task], errors, Some ut1', s1)
         = (results', errors', uto, s')"
      by (simp add: Let_def)
    from Cons.IH [OF _ all this] t show ?thesis
      by blast
  qed
qed

lemma parse_empty_object: "py_json_loads (u ''{}'') = Inr (JObject [])"
  by (simp add: py_json_loads_def u_def skip_ws_def json_ws_def)

lemma extract_empty_object: "extract_json_from_text (u ''{}'') = u ''{}''"
  by (simp add: extract_json_from_text_def upto_last_rbrace_def u_def)

lemma strip_empty_object: "py_strip (u ''{}'') = u ''{}''"
  by (simp add: py_strip_def py_isspace_def u_def)

lemma normalize_empty_object: "normalize_json_result (JObject []) n r = Inr (bare_record n r)"
  by (simp add: normalize_json_result_def bare_record_def Let_def py_get_def
      strip_newlines_def STATUS_CHOICES_def PRIORITY_CHOICES_def u_def)

lemma generate7_bare:
  "generate_task_json7 (stub_env [ok (u ''{}'')]) doc n r k m None empty_state
     = (Inr (bare_record n r), None,
        \<lparr>CACHE = [cache_key (stub_env [ok (u ''{}'')]) doc n r m \<mapsto> bare_record n r],
         sent = [\<lparr>req_api_key = k, req_model = m, req_document_text = doc,
                  req_student_name = n, req_role_ru = r\<rparr>]\<rparr>)"
proof -
  have miss: "CACHE empty_state (cache_key (stub_env [ok (u ''{}'')]) doc n r m) = None"
    by (simp add: empty_state_def)
  have len: "length (sent empty_state) = 0"
    by (simp add: empty_state_def)
  show ?thesis
    unfolding generate7_miss [OF miss] len
    by (simp add: fetch_stub_ok strip_empty_object extract_empty_object json_loads_stub
        parse_empty_object normalize_empty_object empty_state_def)
qed

lemma bare_record_no_title: "\<not> has_fields seven_fields (bare_record n r)"
  by (simp add: has_fields_def seven_fields_def required_fields_def bare_record_def py_keys_def
      u_def)

text \<open>
  C8, as stated, fails for test7.py: called without a set of used titles (the
  default of the parameter) on the answer \<open>{}\<close>, the generator returns a record that has
  neither a title nor a description.
\<close>

theorem extended_record_without_title:
  "fst (generate_task_json7 (stub_env [ok (u ''{}'')]) (u ''Doc'') (u ''Ivan'') (u ''Tester'')
          (u ''key'') (u ''mistral-small'') None empty_state)
     = Inr [(u ''role'', JString (u ''Tester'')), (u ''executor'', JString (u ''Ivan'')),
            (u ''author'', JString (u ''AI'')), (u ''status'', JString (u ''new'')),
            (u ''priority'', JString (u ''medium''))]
   \<and> \<not> has_fields seven_fields
         [(u ''role'', JString (u ''Tester'')), (u ''executor'', JString (u ''Ivan'')),
          (u ''author'', JString (u ''AI'')), (u ''status'', JString (u ''new'')),
          (u ''priority'', JString (u ''medium''))]"
  using bare_record_no_title [of "u ''Ivan''" "u ''Tester''"]
  by (simp add: generate7_bare bare_record_def)

lemma generate7_miss_forced:
  assumes "CACHE s (cache_key E doc n r m) = None"
    and "generate_task_json7 E doc n r k m used_titles s = (Inr rec, ut', s')"
  shows "has_fields forced_fields rec"
proof -
  from generate7_miss_result [OF assms] obtain parsed data where
    n: "normalize_json_result parsed n r = Inr data"
    and u: "used_titles = None \<and> rec = data
            \<or> (\<exists>ut ut2. used_titles = Some ut \<and> unique_title E data r ut = Inr (rec, ut2))"
    by blast
  from normalize_only_objects [OF n] obtain d where "parsed = JObject d"
    by blast
  then have "set forced_fields \<subseteq> py_keys data"
    using normalize_keys(1) n by blast
  moreover have "py_keys data \<subseteq> py_keys rec"
    using u unique_title_keys(3) by blast
  ultimately show ?thesis
    unfolding has_fields_def by blast
qed

lemma generate7_miss_seven:
  assumes "CACHE s (cache_key E doc n r m) = None"
    and "generate_task_json7 E doc n r k m (Some ut) s = (Inr rec, ut', s')"
  shows "has_fields seven_fields rec"
proof -
  from generate7_miss_result [OF assms] obtain parsed data ut2 where
    n: "normalize_json_result parsed n r = Inr data"
    and u: "unique_title E data r ut = Inr (rec, ut2)"
    by auto
  from normalize_only_objects [OF n] obtain d where "parsed = JObject d"
    by blast
  then have "set forced_fields \<subseteq> py_keys data"
    using normalize_keys(1) n by blast
  then show ?thesis
    using unique_title_keys [OF u] unfolding has_fields_def seven_fields_set by blast
qed

text \<open>
  The record that a call without used titles has cached goes to any later call with the
  same key, also to one that is given a set of used titles: a cache hit checks nothing.
\<close>

lemma cached_bare_record_is_returned:
  "fst (generate_task_json7 (stub_env [ok (u ''{}'')]) doc n r k' m (Some {})
          (snd (snd (generate_task_json7 (stub_env [ok (u ''{}'')]) doc n r k m None
                       empty_state))))
     = Inr (bare_record n r)"
  by (simp add: generate7_bare generate7_hit)

text \<open>
  C8, amended. A record returned by test5.py has the six required fields. In test7.py a
  record computed from an answer of the remote service (a cache miss) has \<open>role\<close>,
  \<open>executor\<close>, \<open>author\<close>, \<open>status\<close> and \<open>priority\<close>, and, when that call is given a set of
  used titles, as every call of the batch loop is, also \<open>title\<close> and \<open>description\<close>
  (reading a missing one raises \<open>KeyError\<close>). A cache hit returns what an earlier call
  stored: when every record in the cache has the five, respectively the seven, fields,
  so has the record returned and so has every record in the cache after the call. Hence
  every record in the results of a batch has the seven fields when the batch starts from
  a cache whose records all have them, the empty cache for one. Nothing is said of a call
  that hits a record cached without them.
\<close>

theorem record_fields_present:
  "(fst (generate_task_json5 E5 doc5 n5 r5 k5 m5 reqs) = Inr rec5 \<longrightarrow>
      has_fields required_fields rec5)
   \<and> (cache_has forced_fields s
        \<and> generate_task_json7 E doc n r k m used_titles s = (Inr rec, ut', s') \<longrightarrow>
      has_fields forced_fields rec \<and> cache_has forced_fields s')
   \<and> (cache_has seven_fields s7
        \<and> generate_task_json7 E7 doc7 n7 r7 k7 m7 (Some ut) s7 = (Inr rec7, ut7, s7') \<longrightarrow>
      has_fields seven_fields rec7 \<and> cache_has seven_fields s7')
   \<and> (cache_has seven_fields sb
        \<and> run_batch7 Eb docb kb mb rows sb = (results, errors, utb, sb') \<longrightarrow>
      (\<forall>task \<in> set results. has_fields seven_fields task))
   \<and> (CACHE sm (cache_key Em docm nm rm mm) = None
        \<and> generate_task_json7 Em docm nm rm km mm usedm sm = (Inr recm, utm, sm') \<longrightarrow>
      has_fields forced_fields recm)
   \<and> (CACHE sn (cache_key En docn nn rn mn) = None
        \<and> generate_task_json7 En docn nn rn kn mn (Some utn) sn = (Inr recn, utn', sn') \<longrightarrow>
      has_fields seven_fields recn)"
proof (intro conjI impI)
  show "has_fields required_fields rec5"
    if "fst (generate_task_json5 E5 doc5 n5 r5 k5 m5 reqs) = Inr rec5"
    using that by (rule generate5_has_required)
  show "has_fields forced_fields rec" "cache_has forced_fields s'"
    if "cache_has forced_fields s
        \<and> generate_task_json7 E doc n r k m used_titles s = (Inr rec, ut', s')"
    using that generate7_forced by blast+
  show "has_fields seven_fields rec7" "cache_has seven_fields s7'"
    if "cache_has seven_fields s7
        \<and> generate_task_json7 E7 doc7 n7 r7 k7 m7 (Some ut) s7 = (Inr rec7, ut7, s7')"
    using that generate7_seven by blast+
  show "\<forall>task \<in> set results. has_fields seven_fields task"
    if "cache_has seven_fields sb
        \<and> run_batch7 Eb docb kb mb rows sb = (results, errors, utb, sb')"
    using that batch_loop7_seven [of sb "[]" Eb docb kb mb rows "[]" "{}" results errors utb sb']
    by (simp add: run_batch7_def)
  show "has_fields forced_fields recm"
    if "CACHE sm (cache_key Em docm nm rm mm) = None
        \<and> generate_task_json7 Em docm nm rm km mm usedm sm = (Inr recm, utm, sm')"
    using that generate7_miss_forced by blast
  show "has_fields seven_fields recn"
    if "CACHE sn (cache_key En docn nn rn mn) = None
        \<and> generate_task_json7 En docn nn rn kn mn (Some utn) sn = (Inr recn, utn', sn')"
    using that generate7_miss_seven by blast
qed

lemma empty_state_miss: "CACHE empty_state key = None"
  by (simp add: empty_state_def)

lemma cache_has_empty: "cache_has names empty_state"
  by (simp add: cache_has_def empty_state_def)

theorem record_fields_present_witness:
  "has_fields required_fields full_object
   \<and> has_fields forced_fields (bare_record (u ''Ivan'') (u ''Tester''))
   \<and> has_fields seven_fields (demo_record (u ''Ivan'') (u ''Analyst''))
   \<and> cache_has seven_fields
        (demo_state (stub_env [ok demo_answer]) (u ''Doc'') (u ''Ivan'') (u ''Analyst'')
           (u ''key'') (u ''mistral-small''))"
proof -
  have k: "u ''key'' \<noteq> []"
    by (simp add: u_def)
  have five: "fst (generate_task_json5 (stub_env [ok full_answer]) (u ''Doc'') (u ''Ivan'')
                     (u ''Tester'') (u ''key'') (u ''mistral-small'') []) = Inr full_object"
    by (simp add: generate5_full [OF k])
  have batch: "run_batch7 (stub_env [ok demo_answer, Some (Response 500 None)]) (u ''Doc'')
      (u ''key'') (u ''mistral-small'')
      [(u '' Ivan '', u ''Analyst''), (u ''Maria'', u ''Tester'')] empty_state
    = ([demo_record (u ''Ivan'') (u ''Analyst'')],
       [(u ''Maria'', u ''Tester'', HTTPError 500)],
       Some {(KStr (u ''T''), KStr (u ''D''))},
       (demo_state (stub_env [ok demo_answer, Some (Response 500 None)]) (u ''Doc'')
          (u ''Ivan'') (u ''Analyst'') (u ''key'') (u ''mistral-small''))
       \<lparr>sent := [\<lparr>req_api_key = u ''key'', req_model = u ''mistral-small'',
                   req_document_text = u ''Doc'',
                   req_student_name = u ''Ivan'', req_role_ru = u ''Analyst''\<rparr>,
                 \<lparr>req_api_key = u ''key'', req_model = u ''mistral-small'',
                   req_document_text = u ''Doc'',
                   req_student_name = u ''Maria'', req_role_ru = u ''Tester''\<rparr>]\<rparr>)"
    by (rule run_batch7_demo)
  show ?thesis
    using record_fields_present
      [of "stub_env [ok full_answer]" "u ''Doc''" "u ''Ivan''" "u ''Tester''" "u ''key''"
          "u ''mistral-small''" "[]" full_object
          empty_state "stub_env [ok (u ''{}'')]" "u ''Doc''" "u ''Ivan''" "u ''Tester''"
          "u ''key''" "u ''mistral-small''" None "bare_record (u ''Ivan'') (u ''Tester'')"
          None _
          empty_state "stub_env [ok demo_answer]" "u ''Doc''" "u ''Ivan''" "u ''Analyst''"
          "u ''key''" "u ''mistral-small''" "{}" "demo_record (u ''Ivan'') (u ''Analyst'')"
          "Some {(KStr (u ''T''), KStr (u ''D''))}"
          "demo_state (stub_env [ok demo_answer]) (u ''Doc'') (u ''Ivan'') (u ''Analyst'')
             (u ''key'') (u ''mistral-small'')"
          empty_state "stub_env [ok demo_answer, Some (Response 500 None)]" "u ''Doc''"
          "u ''key''" "u ''mistral-small''"
          "[(u '' Ivan '', u ''Analyst''), (u ''Maria'', u ''Tester'')]" _ _ _ _
          empty_state "stub_env [ok (u ''{}'')]" "u ''Doc''" "u ''Ivan''" "u ''Tester''"
          "u ''mistral-small''" "u ''key''" None "bare_record (u ''Ivan'') (u ''Tester'')"
          None _
          empty_state "stub_env [ok demo_answer]" "u ''Doc''" "u ''Ivan''" "u ''Analyst''"
          "u ''mistral-small''" "u ''key''" "{}" "demo_record (u ''Ivan'') (u ''Analyst'')"
          "Some {(KStr (u ''T''), KStr (u ''D''))}"
          "demo_state (stub_env [ok demo_answer]) (u ''Doc'') (u ''Ivan'') (u ''Analyst'')
             (u ''key'') (u ''mistral-small'')"]
      five generate7_bare [of "u ''Doc''" "u ''Ivan''" "u ''Tester''" "u ''key''" "u ''mistral-small''"]
      generate7_demo_first [of "[]" "u ''Doc''" "u ''Ivan''" "u ''Analyst''" "u ''key''" "u ''mistral-small''"]
      batch cache_has_empty empty_state_miss
    by simp
qed

text \<open>
  C9, as stated, fails: test5.py returns the parsed answer as it is, so an
  answer with the six fields and the status \<open>"Done"\<close> comes back with that status.
\<close>

theorem simpler_variant_status_not_todo:
  "fst (generate_task_json5 (stub_env [ok full_answer]) (u ''Doc'') (u ''Ivan'') (u ''Tester'')
          (u ''key'') (u ''mistral-small'') []) = Inr full_object
   \<and> map_of full_object (u ''status'') = Some (JString (u ''Done''))
   \<and> u ''Done'' \<noteq> u ''Todo''"
proof -
  have k: "u ''key'' \<noteq> []"
    by (simp add: u_def)
  show ?thesis
    by (simp add: generate5_full [OF k]) (simp add: full_object_def u_def)
qed

text \<open>
  C9, amended. A record returned by test5.py is the parsed answer itself, unchanged: its
  \<open>status\<close> is present and is whatever the answer of the remote service carries (the
  prompt asks the model for \<open>"Todo"\<close>; the code does not set it).
\<close>

theorem simpler_variant_returns_parsed_answer:
  assumes "generate_task_json5 E doc n r k m reqs = (Inr rec, reqs')"
  shows "\<exists>raw. fetch_content E (length reqs)
             \<lparr>req_api_key = k, req_model = m, req_document_text = doc,
              req_student_name = n, req_role_ru = r\<rparr> = Inr raw
          \<and> json_loads E raw = Inr (JObject rec)
          \<and> map_of rec (u ''status'') \<noteq> None"
proof -
  from assms have "fst (generate_task_json5 E doc n r k m reqs) = Inr rec"
    by simp
  from generate5_needs_object [OF this] obtain raw where raw:
    "fetch_content E (length reqs)
       \<lparr>req_api_key = k, req_model = m, req_document_text = doc,
        req_student_name = n, req_role_ru = r\<rparr> = Inr raw"
    "json_loads E raw = Inr (JObject rec)" "set required_fields \<subseteq> fst ` set rec"
    by blast
  have "u ''status'' \<in> fst ` set rec"
    using raw(3) by (auto simp: required_fields_def)
  then have "map_of rec (u ''status'') \<noteq> None"
    by (simp add: map_of_eq_None_iff)
  with raw show ?thesis
    by blast
qed

theorem simpler_variant_returns_parsed_answer_witness:
  "\<exists>raw. fetch_content (stub_env [ok full_answer]) (length ([] :: request list))
             \<lparr>req_api_key = u ''key'', req_model = u ''mistral-small'',
              req_document_text = u ''Doc'', req_student_name = u ''Ivan'',
              req_role_ru = u ''Tester''\<rparr> = Inr raw
          \<and> json_loads (stub_env [ok full_answer]) raw = Inr (JObject full_object)
          \<and> map_of full_object (u ''status'') \<noteq> None"
proof -
  have k: "u ''key'' \<noteq> []"
    by (simp add: u_def)
  have "generate_task_json5 (stub_env [ok full_answer]) (u ''Doc'') (u ''Ivan'') (u ''Tester'')
          (u ''key'') (u ''mistral-small'') []
        = (Inr full_object,
           [] @ [\<lparr>req_api_key = u ''key'', req_model = u ''mistral-small'',
                  req_document_text = u ''Doc'', req_student_name = u ''Ivan'',
                  req_role_ru = u ''Tester''\<rparr>])"
    by (rule generate5_full [OF k]) simp_all
  then show ?thesis
    by (rule simpler_variant_returns_parsed_answer)
qed

end
